theory Spec2Isabelle
  imports Main "HOL-Library.Word" "HOL-Library.List_Lexorder"
begin

section \<open>JavaScript values used by serve-index\<close>

text \<open>
  A JavaScript string is a sequence of 16-bit code units. Comparison of strings with
  \<open><\<close> (the default order of \<open>Array.prototype.sort\<close>) is the lexicographic order on
  code units, which is the order of \<open>HOL-Library.List_Lexorder\<close> on lists of words.
\<close>

type_synonym code_unit = "16 word"
type_synonym jsstring = "code_unit list"

definition js :: "string \<Rightarrow> jsstring" where
  "js s = map of_char s"

text \<open>The values a caller can hand to \<open>serveIndex\<close> as \<open>root\<close>.\<close>

datatype js_value = JSUndefined | JSNull | JSBoolean bool | JSString jsstring

fun ToBoolean :: "js_value \<Rightarrow> bool" where
  "ToBoolean JSUndefined = False"
| "ToBoolean JSNull = False"
| "ToBoolean (JSBoolean b) = b"
| "ToBoolean (JSString s) = (s \<noteq> [])"

text \<open>
  Exceptions: the \<open>TypeError\<close> that \<open>index.js\<close> throws with its message, a \<open>TypeError\<close>
  raised by the runtime (an argument of the wrong type, a call of \<open>undefined\<close>), and
  the \<open>URIError\<close> of \<open>decodeURIComponent\<close>.
\<close>

datatype js_exception = TypeError jsstring | RuntimeTypeError | URIError

text \<open>\<open>String.prototype.indexOf\<close> for a one-unit needle, and the operator \<open>~\<close>.\<close>

fun indexOf_from :: "int \<Rightarrow> jsstring \<Rightarrow> code_unit \<Rightarrow> int" where
  "indexOf_from k [] c = - 1"
| "indexOf_from k (x # xs) c = (if x = c then k else indexOf_from (k + 1) xs c)"

definition indexOf :: "jsstring \<Rightarrow> code_unit \<Rightarrow> int" where
  "indexOf s c = indexOf_from 0 s c"

definition bitnot :: "int \<Rightarrow> int" where
  "bitnot x = - x - 1"

text \<open>\<open>s.substr(0, n)\<close>.\<close>

definition substr0 :: "jsstring \<Rightarrow> nat \<Rightarrow> jsstring" where
  "substr0 s n = take n s"

text \<open>\<open>xs.join(sep)\<close> and \<open>s.split(c)\<close> for a one-unit separator.\<close>

fun join_with :: "jsstring \<Rightarrow> jsstring list \<Rightarrow> jsstring" where
  "join_with s [] = []"
| "join_with s [x] = x"
| "join_with s (x # y # ys) = x @ s @ join_with s (y # ys)"

fun split_acc :: "code_unit \<Rightarrow> jsstring \<Rightarrow> jsstring \<Rightarrow> jsstring list" where
  "split_acc c cur [] = [rev cur]"
| "split_acc c cur (x # xs) =
     (if x = c then rev cur # split_acc c [] xs else split_acc c (x # cur) xs)"

definition split_on :: "code_unit \<Rightarrow> jsstring \<Rightarrow> jsstring list" where
  "split_on c s = split_acc c [] s"

section \<open>The \<open>path\<close> module\<close>

text \<open>
  \<open>index.js\<close> takes \<open>normalize\<close>, \<open>join\<close>, \<open>resolve\<close> and \<open>sep\<close> from Node's
  \<open>path\<close> module, which depends on the platform. The handler is modelled over any such
  module; \<open>posix\<close> below is Node's POSIX implementation (\<open>lib/path.js\<close>), with the
  working directory of the process as a parameter.
\<close>

record path_module =
  path_sep :: jsstring
  path_normalize :: "jsstring \<Rightarrow> jsstring"
  path_join :: "jsstring list \<Rightarrow> jsstring"
  path_resolve :: "jsstring \<Rightarrow> jsstring"

text \<open>
  \<open>normalizeString\<close> of \<open>lib/path.js\<close>, on the segments between separators: empty
  segments and \<open>.\<close> are dropped, \<open>..\<close> removes the segment before it unless there is
  none or it is \<open>..\<close> itself, in which case it is kept only above a relative path.
  The accumulator holds the segments kept so far, last first.
\<close>

fun normalizeSegs :: "bool \<Rightarrow> jsstring list \<Rightarrow> jsstring list \<Rightarrow> jsstring list" where
  "normalizeSegs allowAboveRoot acc [] = rev acc"
| "normalizeSegs allowAboveRoot acc (s # ss) =
     (if s = [] \<or> s = js ''.'' then normalizeSegs allowAboveRoot acc ss
      else if s = js ''..'' then
        (if acc \<noteq> [] \<and> hd acc \<noteq> js ''..'' then normalizeSegs allowAboveRoot (tl acc) ss
         else if allowAboveRoot then normalizeSegs allowAboveRoot (s # acc) ss
         else normalizeSegs allowAboveRoot acc ss)
      else normalizeSegs allowAboveRoot (s # acc) ss)"

definition normalizeString :: "jsstring \<Rightarrow> bool \<Rightarrow> jsstring" where
  "normalizeString p allowAboveRoot =
     join_with (js ''/'') (normalizeSegs allowAboveRoot [] (split_on 0x2F p))"

definition posix_normalize :: "jsstring \<Rightarrow> jsstring" where
  "posix_normalize p =
     (if p = [] then js ''.''
      else
        let isAbsolute = (hd p = 0x2F);
            trailingSeparator = (last p = 0x2F);
            q = normalizeString p (\<not> isAbsolute)
        in if q = [] then
             (if isAbsolute then js ''/''
              else if trailingSeparator then js ''./'' else js ''.'')
           else
             let q' = (if trailingSeparator then q @ js ''/'' else q)
             in if isAbsolute then js ''/'' @ q' else q')"

definition posix_join :: "jsstring list \<Rightarrow> jsstring" where
  "posix_join args =
     (let parts = filter (\<lambda>a. a \<noteq> []) args
      in if parts = [] then js ''.''
         else posix_normalize (join_with (js ''/'') parts))"

text \<open>\<open>resolve\<close> with one argument: the argument, below the working directory if relative.\<close>

definition posix_resolve :: "jsstring \<Rightarrow> jsstring \<Rightarrow> jsstring" where
  "posix_resolve cwd p =
     (let r1 = (if p = [] then [] else p @ js ''/'');
          abs1 = (p \<noteq> [] \<and> hd p = 0x2F);
          r2 = (if abs1 \<or> cwd = [] then r1 else cwd @ js ''/'' @ r1);
          resolvedAbsolute = (if abs1 then True else (cwd \<noteq> [] \<and> hd cwd = 0x2F));
          q = normalizeString r2 (\<not> resolvedAbsolute)
      in if resolvedAbsolute then js ''/'' @ q
         else if q \<noteq> [] then q else js ''.'')"

definition posix :: "jsstring \<Rightarrow> path_module" where
  "posix cwd =
     \<lparr> path_sep = js ''/'',
       path_normalize = posix_normalize,
       path_join = posix_join,
       path_resolve = posix_resolve cwd \<rparr>"

section \<open>\<open>decodeURIComponent\<close>\<close>

text \<open>
  The abstract operation \<open>Decode\<close> of ECMA-262 with an empty set of preserved escapes.
  \<open>None\<close> is the \<open>URIError\<close> it throws. The first pass reads the \<open>%XX\<close> escapes,
  the second one reads the octets as UTF-8 and re-encodes each code point in UTF-16;
  \<open>need\<close> counts the continuation octets still missing.
\<close>

definition hexDigit :: "code_unit \<Rightarrow> nat option" where
  "hexDigit c =
     (let n = unat c
      in if 48 \<le> n \<and> n \<le> 57 then Some (n - 48)
         else if 65 \<le> n \<and> n \<le> 70 then Some (n - 55)
         else if 97 \<le> n \<and> n \<le> 102 then Some (n - 87)
         else None)"

definition ParseHexOctet :: "code_unit \<Rightarrow> code_unit \<Rightarrow> nat option" where
  "ParseHexOctet h l =
     (case hexDigit h of
        None \<Rightarrow> None
      | Some a \<Rightarrow> (case hexDigit l of None \<Rightarrow> None | Some b \<Rightarrow> Some (16 * a + b)))"

datatype uri_item = Unit code_unit | Octet nat

fun uri_items :: "jsstring \<Rightarrow> uri_item list option" where
  "uri_items [] = Some []"
| "uri_items [c] = (if c = 0x25 then None else Some [Unit c])"
| "uri_items [c, h] =
     (if c = 0x25 then None else map_option (Cons (Unit c)) (uri_items [h]))"
| "uri_items (c # h # l # rest) =
     (if c = 0x25 then
        (case ParseHexOctet h l of
           None \<Rightarrow> None
         | Some b \<Rightarrow> map_option (Cons (Octet b)) (uri_items rest))
      else map_option (Cons (Unit c)) (uri_items (h # l # rest)))"

definition utf8_value :: "nat list \<Rightarrow> nat option" where
  "utf8_value octets =
     (let n = length octets; conts = tl octets
      in if \<not> list_all (\<lambda>b. b div 64 = 2) conts then None
         else
           let v = foldl (\<lambda>v b. v * 64 + b mod 64) (hd octets mod 2 ^ (7 - n)) conts
           in if n = 2 \<and> v < 0x80 then None
              else if n = 3 \<and> (v < 0x800 \<or> (0xD800 \<le> v \<and> v \<le> 0xDFFF)) then None
              else if n = 4 \<and> (v < 0x10000 \<or> 0x10FFFF < v) then None
              else Some v)"

definition UTF16EncodeCodePoint :: "nat \<Rightarrow> jsstring" where
  "UTF16EncodeCodePoint v =
     (if v < 0x10000 then [of_nat v]
      else [of_nat (0xD800 + (v - 0x10000) div 1024),
            of_nat (0xDC00 + (v - 0x10000) mod 1024)])"

fun utf8_pass :: "nat list \<Rightarrow> nat \<Rightarrow> uri_item list \<Rightarrow> jsstring option" where
  "utf8_pass octets need [] = (if need = 0 then Some [] else None)"
| "utf8_pass octets need (Unit c # rest) =
     (if need = 0 then map_option (Cons c) (utf8_pass [] 0 rest) else None)"
| "utf8_pass octets need (Octet b # rest) =
     (if need = 0 then
        (if b < 128 then map_option (Cons (of_nat b)) (utf8_pass [] 0 rest)
         else if b < 192 \<or> 248 \<le> b then None
         else utf8_pass [b] (if b < 224 then 1 else if b < 240 then 2 else 3) rest)
      else if need = 1 then
        (case utf8_value (octets @ [b]) of
           None \<Rightarrow> None
         | Some v \<Rightarrow> map_option ((@) (UTF16EncodeCodePoint v)) (utf8_pass [] 0 rest))
      else utf8_pass (octets @ [b]) (need - 1) rest)"

definition decodeURIComponent :: "jsstring \<Rightarrow> jsstring option" where
  "decodeURIComponent s =
     (case uri_items s of None \<Rightarrow> None | Some items \<Rightarrow> utf8_pass [] 0 items)"

section \<open>\<open>JSON.stringify\<close> on an array of strings\<close>

definition hexChar :: "nat \<Rightarrow> code_unit" where
  "hexChar d = (if d < 10 then of_nat (48 + d) else of_nat (87 + d))"

definition UnicodeEscape :: "code_unit \<Rightarrow> jsstring" where
  "UnicodeEscape c =
     (let n = unat c
      in [0x5C, 0x75, hexChar (n div 4096 mod 16), hexChar (n div 256 mod 16),
          hexChar (n div 16 mod 16), hexChar (n mod 16)])"

definition isLeadingSurrogate :: "code_unit \<Rightarrow> bool" where
  "isLeadingSurrogate c = (0xD800 \<le> c \<and> c \<le> 0xDBFF)"

definition isTrailingSurrogate :: "code_unit \<Rightarrow> bool" where
  "isTrailingSurrogate c = (0xDC00 \<le> c \<and> c \<le> 0xDFFF)"

text \<open>The body of \<open>QuoteJSONString\<close>, between the two quotation marks.\<close>

fun quoteUnits :: "jsstring \<Rightarrow> jsstring" where
  "quoteUnits [] = []"
| "quoteUnits (c # cs) =
     (if c = 0x08 then [0x5C, 0x62] @ quoteUnits cs
      else if c = 0x09 then [0x5C, 0x74] @ quoteUnits cs
      else if c = 0x0A then [0x5C, 0x6E] @ quoteUnits cs
      else if c = 0x0C then [0x5C, 0x66] @ quoteUnits cs
      else if c = 0x0D then [0x5C, 0x72] @ quoteUnits cs
      else if c = 0x22 then [0x5C, 0x22] @ quoteUnits cs
      else if c = 0x5C then [0x5C, 0x5C] @ quoteUnits cs
      else if c < 0x20 then UnicodeEscape c @ quoteUnits cs
      else if isLeadingSurrogate c \<and> cs \<noteq> [] \<and> isTrailingSurrogate (hd cs)
        then [c, hd cs] @ quoteUnits (tl cs)
      else if isLeadingSurrogate c \<or> isTrailingSurrogate c
        then UnicodeEscape c @ quoteUnits cs
      else c # quoteUnits cs)"

definition QuoteJSONString :: "jsstring \<Rightarrow> jsstring" where
  "QuoteJSONString s = [0x22] @ quoteUnits s @ [0x22]"

definition JSON_stringify :: "jsstring list \<Rightarrow> jsstring" where
  "JSON_stringify xs = js ''['' @ join_with (js '','') (map QuoteJSONString xs) @ js '']''"

section \<open>The file system and the errors it raises\<close>

datatype stats = Stats (isDirectory: bool) (stats_size: nat) (mtime: int)

text \<open>
  An error object handed to \<open>next\<close>: \<open>createError(status)\<close> of \<open>http-errors\<close>, or an
  error raised by \<open>fs\<close> with its \<open>code\<close> and the \<open>status\<close> property once the handler
  has set one.
\<close>

datatype error = HttpError nat | SystemError jsstring "nat option"

text \<open>
  The handler only reads the file system, so its state is the answer of each call:
  \<open>Inl code\<close> is the error the callback receives. The calls issued are logged.
\<close>

record filesystem =
  fs_stat :: "jsstring \<Rightarrow> jsstring + stats"
  fs_readdir :: "jsstring \<Rightarrow> jsstring + jsstring list"
  fs_readFile :: "jsstring \<Rightarrow> jsstring + jsstring"

datatype fs_op = OpStat jsstring | OpReaddir jsstring | OpReadFile jsstring

section \<open>\<open>Batch\<close>: bounded concurrency\<close>

text \<open>
  \<open>batch.end\<close> starts at most \<open>n\<close> tasks; the callback of a task stores its result at
  the task's own index and starts the next task, and the first error ends the batch.
  Which running task calls back first is not decided by the program: \<open>pick\<close> chooses it
  from the state, so a statement for every \<open>pick\<close> is one for every completion order.
  A task is given by what it hands to its callback.
\<close>

datatype 'a task_result = TaskError error | TaskDone 'a

record 'a batch_state =
  bs_index :: nat
  bs_running :: "nat list"
  bs_results :: "'a option list"
  bs_pending :: int

type_synonym 'a scheduler = "'a batch_state \<Rightarrow> nat"

text \<open>
  A JavaScript array with holes: \<open>None\<close> is a hole, which reads as \<open>undefined\<close>, as does
  an index past the end; a write past the end extends the array.
\<close>

definition array_set :: "'a option list \<Rightarrow> nat \<Rightarrow> 'a \<Rightarrow> 'a option list" where
  "array_set xs i v =
     (if i < length xs then xs[i := Some v]
      else xs @ replicate (i - length xs) None @ [Some v])"

definition array_get :: "'a option list \<Rightarrow> nat \<Rightarrow> 'a option" where
  "array_get xs i = (if i < length xs then xs ! i else None)"

text \<open>\<open>next()\<close>: \<open>var i = index++; var fn = fns[i]; if (!fn) return; fn(callback)\<close>.\<close>

definition batch_next :: "nat \<Rightarrow> 'a batch_state \<Rightarrow> 'a batch_state" where
  "batch_next len s =
     (if bs_index s < len
      then s\<lparr>bs_index := bs_index s + 1, bs_running := bs_running s @ [bs_index s]\<rparr>
      else s\<lparr>bs_index := bs_index s + 1\<rparr>)"

text \<open>
  One callback after the other. The result is what \<open>cb\<close> receives (\<open>None\<close> if no task is
  left to call back, so that \<open>cb\<close> is never invoked) and the value of \<open>index\<close> then.
\<close>

function batch_run ::
  "'a scheduler \<Rightarrow> 'a task_result list \<Rightarrow> 'a batch_state
     \<Rightarrow> (error + 'a option list) option \<times> nat" where
  "batch_run pick fns s =
     (if bs_running s = [] then (None, bs_index s)
      else
        let i = bs_running s ! (pick s mod length (bs_running s))
        in (case fns ! i of
              TaskError e \<Rightarrow> (Some (Inl e), bs_index s)
            | TaskDone r \<Rightarrow>
                let s' = s\<lparr>bs_results := array_set (bs_results s) i r,
                           bs_pending := bs_pending s - 1,
                           bs_running := remove1 i (bs_running s)\<rparr>
                in if bs_pending s' \<noteq> 0
                   then batch_run pick fns (batch_next (length fns) s')
                   else (Some (Inr (bs_results s')), bs_index s')))"
  by pat_completeness auto
termination
proof (relation "measure (\<lambda>(pick, fns, s). 2 * (length fns - bs_index s) + length (bs_running s))")
  show "wf (measure (\<lambda>(pick, fns, s). 2 * (length fns - bs_index s) + length (bs_running s)))"
    by simp
next
  fix pick :: "'a scheduler" and fns :: "'a task_result list" and s :: "'a batch_state"
    and i r s'
  assume ne: "bs_running s \<noteq> []"
    and i: "i = bs_running s ! (pick s mod length (bs_running s))"
    and s': "s' = s\<lparr>bs_results := array_set (bs_results s) i r,
                    bs_pending := bs_pending s - 1,
                    bs_running := remove1 i (bs_running s)\<rparr>"
  from ne i have "i \<in> set (bs_running s)"
    by simp
  then have "length (remove1 i (bs_running s)) < length (bs_running s)"
    by (simp add: length_remove1) (cases "bs_running s"; simp)
  with s' show "((pick, fns, batch_next (length fns) s'), (pick, fns, s))
      \<in> measure (\<lambda>(pick, fns, s). 2 * (length fns - bs_index s) + length (bs_running s))"
    by (auto simp: batch_next_def)
qed

text \<open>
  \<open>batch.end(cb)\<close> with concurrency \<open>n\<close>: an empty batch calls back at once; otherwise
  the loop calls \<open>next()\<close> for the first \<open>min n (length fns)\<close> tasks.
\<close>

definition batch_end ::
  "'a scheduler \<Rightarrow> nat \<Rightarrow> 'a task_result list \<Rightarrow> (error + 'a option list) option \<times> nat" where
  "batch_end pick n fns =
     (if fns = [] then (Some (Inr []), 0)
      else batch_run pick fns
             \<lparr> bs_index = min n (length fns),
               bs_running = [0 ..< min n (length fns)],
               bs_results = [],
               bs_pending = int (length fns) \<rparr>)"

text \<open>
  \<open>stat(dir, files, cb)\<close>: one task per name; \<open>ENOENT\<close> is passed on as a \<open>null\<close> stat
  (\<open>TaskDone None\<close>), any other error as the error.
\<close>

definition stat_task ::
  "path_module \<Rightarrow> filesystem \<Rightarrow> jsstring \<Rightarrow> jsstring \<Rightarrow> stats option task_result" where
  "stat_task P fs dir file =
     (case fs_stat fs (path_join P [dir, file]) of
        Inl code \<Rightarrow>
          if code \<noteq> js ''ENOENT'' then TaskError (SystemError code None) else TaskDone None
      | Inr st \<Rightarrow> TaskDone (Some st))"

definition stat ::
  "path_module \<Rightarrow> filesystem \<Rightarrow> stats option scheduler \<Rightarrow> jsstring \<Rightarrow> jsstring list
     \<Rightarrow> (error + stats option option list) option \<times> fs_op list" where
  "stat P fs pick dir files =
     (case batch_end pick 10 (map (stat_task P fs dir) files) of
        (res, started) \<Rightarrow>
          (res, map (\<lambda>file. OpStat (path_join P [dir, file])) (take started files)))"

text \<open>
  What holds of the batch between two callbacks: the running tasks are distinct tasks
  that were started, every task started and no longer running has handed over a value
  that sits at the task's index, and \<open>pending\<close> counts the tasks not yet completed.
\<close>

definition batch_inv :: "'a task_result list \<Rightarrow> 'a batch_state \<Rightarrow> bool" where
  "batch_inv fns s =
     (distinct (bs_running s) \<and>
      list_all (\<lambda>i. i < bs_index s \<and> i < length fns) (bs_running s) \<and>
      list_all (\<lambda>i. i \<in> set (bs_running s) \<or>
                  (i < length (bs_results s) \<and> fns ! i = TaskDone (the (bs_results s ! i))
                   \<and> bs_results s ! i \<noteq> None))
        [0 ..< min (bs_index s) (length fns)] \<and>
      length (bs_results s) \<le> min (bs_index s) (length fns) \<and>
      bs_pending s =
        int (length fns) - int (min (bs_index s) (length fns)) + int (length (bs_running s)))"

text \<open>The value a stat task hands over: \<open>null\<close> for a name that is gone.\<close>

definition stat_value :: "path_module \<Rightarrow> filesystem \<Rightarrow> jsstring \<Rightarrow> jsstring \<Rightarrow> stats option" where
  "stat_value P fs dir file =
     (case fs_stat fs (path_join P [dir, file]) of Inl code \<Rightarrow> None | Inr st \<Rightarrow> Some st)"

text \<open>A name whose stat fails with an error other than \<open>ENOENT\<close>.\<close>

definition stat_fails :: "path_module \<Rightarrow> filesystem \<Rightarrow> jsstring \<Rightarrow> jsstring \<Rightarrow> bool" where
  "stat_fails P fs dir file =
     (case fs_stat fs (path_join P [dir, file]) of
        Inl code \<Rightarrow> code \<noteq> js ''ENOENT''
      | Inr st \<Rightarrow> False)"

section \<open>The middleware\<close>

text \<open>
  Of a request the handler reads the method, the path component of \<open>req.url\<close>
  (\<open>parseUrl(req).pathname\<close>), the path component of the URL before any mounting
  (\<open>parseUrl.original(req).pathname\<close>) and, through \<open>accepts\<close>, the Accept header.
\<close>

record request =
  req_method :: jsstring
  req_pathname :: jsstring
  req_originalPathname :: jsstring
  req_accept :: "jsstring option"

record file_entry =
  fe_name :: jsstring
  fe_stat :: "stats option option"

record locals =
  loc_directory :: jsstring
  loc_displayIcons :: bool
  loc_fileList :: "file_entry list"
  loc_path :: jsstring
  loc_style :: jsstring
  loc_viewName :: jsstring

text \<open>The \<open>template\<close> option: the path of a template file, or a render function.\<close>

datatype template = TemplatePath jsstring | TemplateFunction "locals \<Rightarrow> error + jsstring"

record options =
  opt_filter :: "(jsstring \<Rightarrow> bool) option"
  opt_hidden :: bool
  opt_icons :: bool
  opt_stylesheet :: "jsstring option"
  opt_template :: "template option"
  opt_view :: "jsstring option"

text \<open>The variables the returned handler closes over.\<close>

record config =
  cfg_rootPath :: jsstring
  cfg_filter :: "(jsstring \<Rightarrow> bool) option"
  cfg_hidden :: bool
  cfg_icons :: bool
  cfg_stylesheet :: jsstring
  cfg_template :: template
  cfg_view :: jsstring

text \<open>
  What the module takes from its surroundings: the \<open>path\<close> module, \<open>__dirname\<close>, the
  file system, content negotiation (\<open>accepts(req).type(types)\<close>, \<open>None\<close> for \<open>false\<close>),
  the four placeholder substitutions of the default renderer (lines 294 to 298, with
  their HTML escaping and date formatting), and the order in which stat calls complete.
\<close>

record env =
  env_path :: path_module
  env_dirname :: jsstring
  env_fs :: filesystem
  env_accepts_type :: "request \<Rightarrow> jsstring list \<Rightarrow> jsstring option"
  env_substitute :: "jsstring \<Rightarrow> locals \<Rightarrow> jsstring"
  env_pick :: "stats option scheduler"

text \<open>
  What a call of the handler leads to: a response ended without a body, a call of
  \<open>next\<close>, a body sent by \<open>send\<close> with its content type, an exception, or nothing at all.
\<close>

datatype outcome =
    Ended nat "(jsstring \<times> jsstring) list"
  | Next "error option"
  | Sent jsstring jsstring
  | Threw js_exception
  | NoCallback

definition mediaTypes :: "jsstring list" where
  "mediaTypes = [js ''text/html'', js ''text/plain'', js ''application/json'']"

definition mediaType :: "jsstring \<rightharpoonup> jsstring" where
  "mediaType =
     map_of [(js ''text/html'', js ''html''),
             (js ''text/plain'', js ''plain''),
             (js ''application/json'', js ''json'')]"

text \<open>\<open>a || b\<close> on an optional string: the empty string is falsy as well.\<close>

definition or_default :: "jsstring option \<Rightarrow> jsstring \<Rightarrow> jsstring" where
  "or_default a b = (case a of None \<Rightarrow> b | Some v \<Rightarrow> if v = [] then b else v)"

definition defaultTemplate :: "path_module \<Rightarrow> jsstring \<Rightarrow> jsstring" where
  "defaultTemplate P dirname = path_join P [dirname, js ''public'', js ''directory.html'']"

definition defaultStylesheet :: "path_module \<Rightarrow> jsstring \<Rightarrow> jsstring" where
  "defaultStylesheet P dirname = path_join P [dirname, js ''public'', js ''style.css'']"

text \<open>
  \<open>serveIndex(root, options)\<close>, lines 74 to 91: the exception thrown or the closure.
  A truthy root that is not a string makes \<open>resolve\<close> throw Node's own \<open>TypeError\<close>.
\<close>

text \<open>\<open>options || {}\<close>: without options every property reads as \<open>undefined\<close>.\<close>

definition or_empty :: "options option \<Rightarrow> options" where
  "or_empty options =
     (case options of
        None \<Rightarrow>
          \<lparr> opt_filter = None, opt_hidden = False, opt_icons = False,
            opt_stylesheet = None, opt_template = None, opt_view = None \<rparr>
      | Some given \<Rightarrow> given)"

definition serveIndex ::
  "path_module \<Rightarrow> jsstring \<Rightarrow> js_value \<Rightarrow> options option \<Rightarrow> js_exception + config" where
  "serveIndex P dirname root options =
     (let opts = or_empty options
      in if \<not> ToBoolean root
           then Inl (TypeError (js ''serveIndex() root path required''))
         else
           (case root of
              JSString r \<Rightarrow>
                Inr \<lparr> cfg_rootPath = path_normalize P (path_resolve P r @ path_sep P),
                      cfg_filter = opt_filter opts,
                      cfg_hidden = opt_hidden opts,
                      cfg_icons = opt_icons opts,
                      cfg_stylesheet =
                        or_default (opt_stylesheet opts) (defaultStylesheet P dirname),
                      cfg_template =
                        (case opt_template opts of
                           None \<Rightarrow> TemplatePath (defaultTemplate P dirname)
                         | Some (TemplatePath t) \<Rightarrow>
                             TemplatePath (if t = [] then defaultTemplate P dirname else t)
                         | Some (TemplateFunction f) \<Rightarrow> TemplateFunction f),
                      cfg_view = or_default (opt_view opts) (js ''tiles'') \<rparr>
            | _ \<Rightarrow> Inl RuntimeTypeError))"

text \<open>\<open>send(res, type, body)\<close>: the headers, then \<open>res.end(body)\<close>.\<close>

definition send :: "jsstring \<Rightarrow> jsstring \<Rightarrow> outcome" where
  "send type body = Sent type body"

text \<open>\<open>createHtmlRender(template)\<close>: read the template, substitute, call back.\<close>

definition createHtmlRender ::
  "env \<Rightarrow> jsstring \<Rightarrow> locals \<Rightarrow> (error + jsstring) \<times> fs_op list" where
  "createHtmlRender E template locals =
     (case fs_readFile (env_fs E) template of
        Inl code \<Rightarrow> (Inl (SystemError code None), [OpReadFile template])
      | Inr str \<Rightarrow> (Inr (env_substitute E str locals), [OpReadFile template]))"

text \<open>Lines 175 to 180: \<open>files.map(function (file, i) {...})\<close>.\<close>

definition fileList_of :: "jsstring list \<Rightarrow> stats option option list \<Rightarrow> file_entry list" where
  "fileList_of files stats =
     map (\<lambda>(file, i). \<lparr> fe_name = file, fe_stat = array_get stats i \<rparr>)
       (zip files [0 ..< length files])"

text \<open>Lines 187 to 194.\<close>

definition html_locals ::
  "config \<Rightarrow> jsstring \<Rightarrow> file_entry list \<Rightarrow> jsstring \<Rightarrow> jsstring \<Rightarrow> locals" where
  "html_locals cfg dir fileList path style =
     \<lparr> loc_directory = dir,
       loc_displayIcons = cfg_icons cfg,
       loc_fileList = fileList,
       loc_path = path,
       loc_style = style,
       loc_viewName = cfg_view cfg \<rparr>"

text \<open>Lines 197 to 200: the callback of \<open>render\<close>.\<close>

definition render_callback :: "error + jsstring \<Rightarrow> outcome" where
  "render_callback r =
     (case r of Inl err \<Rightarrow> Next (Some err) | Inr body \<Rightarrow> send (js ''text/html'') body)"

text \<open>Lines 162 to 164: the render function in use.\<close>

definition render_of :: "env \<Rightarrow> config \<Rightarrow> locals \<Rightarrow> (error + jsstring) \<times> fs_op list" where
  "render_of E cfg =
     (case cfg_template cfg of
        TemplatePath t \<Rightarrow> createHtmlRender E t
      | TemplateFunction f \<Rightarrow> (\<lambda>locals. (f locals, [])))"

text \<open>Lines 166 to 168: \<open>if (showUp) files.unshift('..')\<close>.\<close>

definition unshift_parent :: "bool \<Rightarrow> jsstring list \<Rightarrow> jsstring list" where
  "unshift_parent showUp files = (if showUp then js ''..'' # files else files)"

text \<open>\<open>serveIndex.html\<close>. The outcome comes with the file system calls made.\<close>

definition serveIndex_html ::
  "env \<Rightarrow> config \<Rightarrow> jsstring list \<Rightarrow> jsstring \<Rightarrow> bool \<Rightarrow> jsstring \<Rightarrow> outcome \<times> fs_op list" where
  "serveIndex_html E cfg files dir showUp path =
     (let render = render_of E cfg;
          files' = unshift_parent showUp files
      in case stat (env_path E) (env_fs E) (env_pick E) path files' of
           (None, ops) \<Rightarrow> (NoCallback, ops)
         | (Some (Inl err), ops) \<Rightarrow> (Next (Some err), ops)
         | (Some (Inr stats), ops) \<Rightarrow>
             (case fs_readFile (env_fs E) (cfg_stylesheet cfg) of
                Inl code \<Rightarrow>
                  (Next (Some (SystemError code None)), ops @ [OpReadFile (cfg_stylesheet cfg)])
              | Inr style \<Rightarrow>
                  (case render (html_locals cfg dir (fileList_of files' stats) path style) of
                     (r, rops) \<Rightarrow>
                       (render_callback r, ops @ [OpReadFile (cfg_stylesheet cfg)] @ rops))))"

text \<open>\<open>serveIndex.json\<close> and \<open>serveIndex.plain\<close>.\<close>

definition serveIndex_json :: "jsstring list \<Rightarrow> outcome \<times> fs_op list" where
  "serveIndex_json files = (send (js ''application/json'') (JSON_stringify files), [])"

definition serveIndex_plain :: "jsstring list \<Rightarrow> outcome \<times> fs_op list" where
  "serveIndex_plain files = (send (js ''text/plain'') (join_with [0x0A] files @ [0x0A]), [])"

text \<open>
  Lines 141 to 151, the callback of \<open>fs.readdir\<close>. A negotiated type outside the table
  would make \<open>serveIndex[undefined]\<close> a call of \<open>undefined\<close>.
\<close>

definition readdir_callback ::
  "env \<Rightarrow> config \<Rightarrow> request \<Rightarrow> jsstring \<Rightarrow> bool \<Rightarrow> jsstring
     \<Rightarrow> jsstring + jsstring list \<Rightarrow> outcome \<times> fs_op list" where
  "readdir_callback E cfg req originalDir showUp path r =
     (case r of
        Inl code \<Rightarrow> (Next (Some (SystemError code None)), [])
      | Inr files0 \<Rightarrow>
          let files = sort files0
          in (case env_accepts_type E req mediaTypes of
                None \<Rightarrow> (Next (Some (HttpError 406)), [])
              | Some type \<Rightarrow>
                  let renderer = mediaType type
                  in if renderer = Some (js ''html'')
                       then serveIndex_html E cfg files originalDir showUp path
                     else if renderer = Some (js ''json'') then serveIndex_json files
                     else if renderer = Some (js ''plain'') then serveIndex_plain files
                     else (Threw RuntimeTypeError, [])))"

text \<open>Lines 125 to 140, the callback of \<open>fs.stat\<close>.\<close>

definition stat_callback ::
  "env \<Rightarrow> config \<Rightarrow> request \<Rightarrow> jsstring \<Rightarrow> bool \<Rightarrow> jsstring
     \<Rightarrow> jsstring + stats \<Rightarrow> outcome \<times> fs_op list" where
  "stat_callback E cfg req originalDir showUp path r =
     (case r of
        Inl code \<Rightarrow>
          if code = js ''ENOENT'' then (Next None, [])
          else (Next (Some (SystemError code
                  (Some (if code = js ''ENAMETOOLONG'' then 414 else 500)))), [])
      | Inr st \<Rightarrow>
          if \<not> isDirectory st then (Next None, [])
          else
            (case readdir_callback E cfg req originalDir showUp path
                    (fs_readdir (env_fs E) path) of
               (out, ops) \<Rightarrow> (out, OpReaddir path # ops)))"

text \<open>
  Lines 93 to 120: the method gate and the path checks. \<open>Inl\<close> is the outcome of a
  request that ends here, \<open>Inr\<close> gives \<open>originalDir\<close>, \<open>path\<close> and \<open>showUp\<close>.
\<close>

definition resolve_request ::
  "path_module \<Rightarrow> config \<Rightarrow> request \<Rightarrow> outcome + (jsstring \<times> jsstring \<times> bool)" where
  "resolve_request P cfg req =
     (if req_method req \<noteq> js ''GET'' \<and> req_method req \<noteq> js ''HEAD'' then
        Inl (Ended (if js ''OPTIONS'' = req_method req then 200 else 405)
               [(js ''Allow'', js ''GET, HEAD, OPTIONS''), (js ''Content-Length'', js ''0'')])
      else
        (case decodeURIComponent (req_pathname req) of
           None \<Rightarrow> Inl (Threw URIError)
         | Some dir \<Rightarrow>
             (case decodeURIComponent (req_originalPathname req) of
                None \<Rightarrow> Inl (Threw URIError)
              | Some originalDir \<Rightarrow>
                  let path = path_normalize P (path_join P [cfg_rootPath cfg, dir])
                  in if bitnot (indexOf path 0) \<noteq> 0 then Inl (Next (Some (HttpError 400)))
                     else if substr0 (path @ path_sep P) (length (cfg_rootPath cfg))
                               \<noteq> cfg_rootPath cfg
                       then Inl (Next (Some (HttpError 403)))
                     else
                       let showUp =
                             (path_normalize P (path_resolve P path @ path_sep P)
                                \<noteq> cfg_rootPath cfg)
                       in Inr (originalDir, path, showUp))))"

text \<open>The handler returned by \<open>serveIndex\<close>: lines 92 to 154.\<close>

definition handler :: "env \<Rightarrow> config \<Rightarrow> request \<Rightarrow> outcome \<times> fs_op list" where
  "handler E cfg req =
     (case resolve_request (env_path E) cfg req of
        Inl out \<Rightarrow> (out, [])
      | Inr (originalDir, path, showUp) \<Rightarrow>
          (case stat_callback E cfg req originalDir showUp path (fs_stat (env_fs E) path) of
             (out, ops) \<Rightarrow> (out, OpStat path # ops)))"

text \<open>
  A request that gets as far as line 143: it passes the checks of lines 93 to 117,
  \<open>fs.stat\<close> finds a directory at \<open>path\<close> and \<open>fs.readdir\<close> returns \<open>files0\<close>.
\<close>

definition reaches_listing ::
  "env \<Rightarrow> config \<Rightarrow> request \<Rightarrow> jsstring \<Rightarrow> jsstring \<Rightarrow> bool \<Rightarrow> jsstring list \<Rightarrow> bool" where
  "reaches_listing E cfg req originalDir path showUp files0 =
     (resolve_request (env_path E) cfg req = Inr (originalDir, path, showUp) \<and>
      (case fs_stat (env_fs E) path of Inl code \<Rightarrow> False | Inr st \<Rightarrow> isDirectory st) \<and>
      fs_readdir (env_fs E) path = Inr files0)"

text \<open>
  The array the stat pass hands over when no name fails, and what \<open>serveIndex.html\<close>
  needs to get as far as \<open>render\<close>: no failing name and a readable stylesheet.
\<close>

definition stat_values ::
  "path_module \<Rightarrow> filesystem \<Rightarrow> jsstring \<Rightarrow> jsstring list \<Rightarrow> stats option option list" where
  "stat_values P fs dir names = map (\<lambda>file. Some (stat_value P fs dir file)) names"

definition html_ready :: "env \<Rightarrow> config \<Rightarrow> jsstring \<Rightarrow> jsstring list \<Rightarrow> jsstring \<Rightarrow> bool" where
  "html_ready E cfg path names style =
     (list_all (\<lambda>file. \<not> stat_fails (env_path E) (env_fs E) path file) names \<and>
      fs_readFile (env_fs E) (cfg_stylesheet cfg) = Inr style)"

section \<open>An example installation\<close>

text \<open>
  A POSIX host serving \<open>/srv/www\<close>, used to run the handler on concrete requests.
  \<open>/srv/www/docs\<close> lists three names out of order, one of which is gone by the time
  it is stat-ed; \<open>/srv/www/vault\<close> holds an entry that cannot be stat-ed.
\<close>

definition ex_path :: path_module where
  "ex_path = posix (js ''/home/app'')"

definition ex_files :: "(jsstring \<times> (jsstring + stats)) list" where
  "ex_files =
     [(js ''/srv/www'', Inr (Stats True 4096 0)),
      (js ''/srv/www/'', Inr (Stats True 4096 0)),
      (js ''/srv/www/docs'', Inr (Stats True 4096 0)),
      (js ''/srv/www/docs/a.txt'', Inr (Stats False 12 0)),
      (js ''/srv/www/docs/b.txt'', Inr (Stats False 7 0)),
      (js ''/srv/www/readme.txt'', Inr (Stats False 5 0)),
      (js ''/srv/www/vault'', Inr (Stats True 4096 0)),
      (js ''/srv/www/vault/key'', Inl (js ''EACCES'')),
      (js ''/srv/www/locked'', Inl (js ''EACCES'')),
      (js ''/srv/www/long'', Inl (js ''ENAMETOOLONG''))]"

definition ex_dirs :: "(jsstring \<times> jsstring list) list" where
  "ex_dirs =
     [(js ''/srv/www/'', [js ''readme.txt'', js ''docs'', js ''vault'']),
      (js ''/srv/www/docs'', [js ''b.txt'', js ''gone'', js ''a.txt'']),
      (js ''/srv/www/vault'', [js ''key''])]"

definition ex_fs :: filesystem where
  "ex_fs =
     \<lparr> fs_stat = (\<lambda>p. case map_of ex_files p of None \<Rightarrow> Inl (js ''ENOENT'') | Some r \<Rightarrow> r),
       fs_readdir =
         (\<lambda>p. case map_of ex_dirs p of None \<Rightarrow> Inl (js ''ENOTDIR'') | Some names \<Rightarrow> Inr names),
       fs_readFile = (\<lambda>p. Inr (js ''{files}'')) \<rparr>"

text \<open>
  A stand-in for \<open>accepts\<close> on the simplest headers: without an Accept header the first
  offered type is chosen, and a header naming one offered type chooses that type.
\<close>

definition ex_accepts_type :: "request \<Rightarrow> jsstring list \<Rightarrow> jsstring option" where
  "ex_accepts_type req types =
     (case req_accept req of
        None \<Rightarrow> (case types of [] \<Rightarrow> None | t # _ \<Rightarrow> Some t)
      | Some h \<Rightarrow> if h \<in> set types then Some h else None)"

text \<open>The most recently started stat call completes first.\<close>

definition ex_pick :: "stats option scheduler" where
  "ex_pick s = length (bs_running s) - 1"

definition ex_env :: env where
  "ex_env =
     \<lparr> env_path = ex_path,
       env_dirname = js ''/opt/serve-index'',
       env_fs = ex_fs,
       env_accepts_type = ex_accepts_type,
       env_substitute = (\<lambda>str locals. str),
       env_pick = ex_pick \<rparr>"

text \<open>A render function that prints the names it is given, one per line.\<close>

definition ex_render :: "locals \<Rightarrow> error + jsstring" where
  "ex_render locals = Inr (join_with [0x0A] (map fe_name (loc_fileList locals)))"

definition ex_config :: config where
  "ex_config =
     \<lparr> cfg_rootPath = js ''/srv/www/'',
       cfg_filter = None,
       cfg_hidden = False,
       cfg_icons = False,
       cfg_stylesheet = js ''/opt/serve-index/public/style.css'',
       cfg_template = TemplateFunction ex_render,
       cfg_view = js ''tiles'' \<rparr>"

definition ex_options :: options where
  "ex_options =
     \<lparr> opt_filter = None, opt_hidden = False, opt_icons = False,
       opt_stylesheet = None, opt_template = Some (TemplateFunction ex_render),
       opt_view = None \<rparr>"

definition ex_request :: "string \<Rightarrow> string \<Rightarrow> string \<Rightarrow> request" where
  "ex_request m url accept =
     \<lparr> req_method = js m, req_pathname = js url, req_originalPathname = js url,
       req_accept = Some (js accept) \<rparr>"

section \<open>Facts about the building blocks\<close>

lemma indexOf_from_mem:
  "0 \<le> k \<Longrightarrow> (indexOf_from k s c = - 1) = (c \<notin> set s)"
proof (induction s arbitrary: k)
  case Nil
  then show ?case by simp
next
  case (Cons x xs)
  have "0 \<le> k + 1" using Cons.prems by simp
  from Cons.IH [OF this] Cons.prems show ?case by auto
qed

lemma bitnot_indexOf: "(bitnot (indexOf s c) \<noteq> 0) = (c \<in> set s)"
  using indexOf_from_mem [of 0 s c] by (auto simp: bitnot_def indexOf_def)

text \<open>The order in which \<open>sort\<close> puts names: lexicographic on code units.\<close>

lemma jsstring_less_lexicographic:
  fixes a b :: jsstring
  shows "(a < b) = ((a, b) \<in> lexord {(u, v). u < v})"
  by (simp add: list_less_def)

subsection \<open>The batch\<close>

declare batch_run.simps [simp del]

lemma length_array_set: "length (array_set xs i v) = max (length xs) (Suc i)"
  by (auto simp: array_set_def)

lemma nth_array_set_same: "array_set xs i v ! i = Some v"
  by (auto simp: array_set_def nth_append)

lemma nth_array_set_other: "j \<noteq> i \<Longrightarrow> j < length xs \<Longrightarrow> array_set xs i v ! j = xs ! j"
  by (auto simp: array_set_def nth_append)

lemma batch_inv_iff:
  "batch_inv fns s =
     (distinct (bs_running s) \<and>
      (\<forall>i \<in> set (bs_running s). i < bs_index s \<and> i < length fns) \<and>
      (\<forall>i < min (bs_index s) (length fns). i \<notin> set (bs_running s) \<longrightarrow>
         i < length (bs_results s) \<and> (\<exists>r. fns ! i = TaskDone r \<and> bs_results s ! i = Some r)) \<and>
      length (bs_results s) \<le> min (bs_index s) (length fns) \<and>
      bs_pending s =
        int (length fns) - int (min (bs_index s) (length fns)) + int (length (bs_running s)))"
  unfolding batch_inv_def list_all_iff by (auto; fastforce)

lemma batch_inv_complete:
  assumes inv: "batch_inv fns s"
    and i: "i \<in> set (bs_running s)"
    and r: "fns ! i = TaskDone r"
  shows "batch_inv fns
           (s\<lparr>bs_results := array_set (bs_results s) i r,
              bs_pending := bs_pending s - 1,
              bs_running := remove1 i (bs_running s)\<rparr>)"
proof -
  from inv have d: "distinct (bs_running s)"
    and lt: "\<forall>j \<in> set (bs_running s). j < bs_index s \<and> j < length fns"
    and fin: "\<forall>j < min (bs_index s) (length fns). j \<notin> set (bs_running s) \<longrightarrow>
         j < length (bs_results s) \<and> (\<exists>r. fns ! j = TaskDone r \<and> bs_results s ! j = Some r)"
    and len: "length (bs_results s) \<le> min (bs_index s) (length fns)"
    and pend: "bs_pending s =
        int (length fns) - int (min (bs_index s) (length fns)) + int (length (bs_running s))"
    by (simp_all add: batch_inv_iff)
  from i lt have im: "i < min (bs_index s) (length fns)" by simp
  have l2: "0 < length (bs_running s)" using i by (cases "bs_running s") auto
  have l1: "int (length (remove1 i (bs_running s))) = int (length (bs_running s)) - 1"
  proof -
    have "length (remove1 i (bs_running s)) = length (bs_running s) - 1"
      using i by (simp add: length_remove1)
    with l2 show ?thesis by linarith
  qed
  have fin': "\<forall>j < min (bs_index s) (length fns). j \<notin> set (remove1 i (bs_running s)) \<longrightarrow>
         j < length (array_set (bs_results s) i r) \<and>
         (\<exists>r'. fns ! j = TaskDone r' \<and> array_set (bs_results s) i r ! j = Some r')"
  proof (intro allI impI)
    fix j assume j: "j < min (bs_index s) (length fns)"
      and nj: "j \<notin> set (remove1 i (bs_running s))"
    show "j < length (array_set (bs_results s) i r) \<and>
         (\<exists>r'. fns ! j = TaskDone r' \<and> array_set (bs_results s) i r ! j = Some r')"
    proof (cases "j = i")
      case True
      then show ?thesis using r by (simp add: length_array_set nth_array_set_same)
    next
      case False
      with nj d have "j \<notin> set (bs_running s)" by simp
      with fin j have "j < length (bs_results s)"
        and "\<exists>r'. fns ! j = TaskDone r' \<and> bs_results s ! j = Some r'" by auto
      with False show ?thesis by (simp add: length_array_set nth_array_set_other)
    qed
  qed
  show ?thesis
    unfolding batch_inv_iff
    using d lt fin' len pend im l1
    by (auto simp: length_array_set dest: notin_set_remove1)
qed

lemma batch_inv_next:
  assumes inv: "batch_inv fns s"
  shows "batch_inv fns (batch_next (length fns) s)"
proof (cases "bs_index s < length fns")
  case True
  from inv have d: "distinct (bs_running s)"
    and lt: "\<forall>j \<in> set (bs_running s). j < bs_index s \<and> j < length fns"
    and fin: "\<forall>j < min (bs_index s) (length fns). j \<notin> set (bs_running s) \<longrightarrow>
         j < length (bs_results s) \<and> (\<exists>r. fns ! j = TaskDone r \<and> bs_results s ! j = Some r)"
    and len: "length (bs_results s) \<le> min (bs_index s) (length fns)"
    and pend: "bs_pending s =
        int (length fns) - int (min (bs_index s) (length fns)) + int (length (bs_running s))"
    by (simp_all add: batch_inv_iff)
  from lt have "bs_index s \<notin> set (bs_running s)" by auto
  with True d lt fin len pend show ?thesis
    unfolding batch_inv_iff batch_next_def
    by (auto simp: less_Suc_eq min_def)
next
  case False
  with inv show ?thesis
    unfolding batch_inv_iff batch_next_def by (auto simp: min_def)
qed

lemma batch_next_running:
  assumes inv: "batch_inv fns s" and p: "bs_pending s \<noteq> 0"
  shows "bs_running (batch_next (length fns) s) \<noteq> []"
proof (cases "bs_index s < length fns")
  case True
  then show ?thesis by (simp add: batch_next_def)
next
  case False
  then have "min (bs_index s) (length fns) = length fns" by simp
  with inv have "bs_pending s = int (length (bs_running s))"
    by (simp add: batch_inv_iff)
  with p False show ?thesis by (auto simp: batch_next_def)
qed

text \<open>The result of a batch whose tasks all hand over a value.\<close>

lemma batch_inv_finish:
  assumes inv: "batch_inv fns s" and p: "bs_pending s = 0" and ne: "fns \<noteq> []"
  shows "length (bs_results s) = length fns \<and>
         (\<forall>i < length fns. fns ! i = TaskDone (the (bs_results s ! i)) \<and> bs_results s ! i \<noteq> None)"
proof -
  let ?m = "min (bs_index s) (length fns)"
  from inv have fin: "\<forall>j < ?m. j \<notin> set (bs_running s) \<longrightarrow>
         j < length (bs_results s) \<and> (\<exists>r. fns ! j = TaskDone r \<and> bs_results s ! j = Some r)"
    and len: "length (bs_results s) \<le> ?m"
    and pend: "bs_pending s = int (length fns) - int ?m + int (length (bs_running s))"
    by (simp_all add: batch_inv_iff)
  have "?m \<le> length fns" by simp
  with pend p have m: "?m = length fns" and "length (bs_running s) = 0" by linarith+
  then have r: "bs_running s = []" by simp
  from fin m r have all: "\<forall>j < length fns.
         j < length (bs_results s) \<and> (\<exists>r. fns ! j = TaskDone r \<and> bs_results s ! j = Some r)"
    by simp
  from ne have "length fns - 1 < length fns" by (cases fns) auto
  with all have "length fns - 1 < length (bs_results s)" by blast
  with len m have "length (bs_results s) = length fns" by simp
  moreover from all have "\<forall>i < length fns. fns ! i = TaskDone (the (bs_results s ! i)) \<and> bs_results s ! i \<noteq> None"
    by fastforce
  ultimately show ?thesis by simp
qed

lemma batch_run_result:
  "batch_inv fns s \<Longrightarrow> bs_running s \<noteq> [] \<Longrightarrow>
     (\<exists>i e. i < length fns \<and> fns ! i = TaskError e \<and>
        fst (batch_run pick fns s) = Some (Inl e)) \<or>
     (\<exists>rs. fst (batch_run pick fns s) = Some (Inr rs) \<and>
        snd (batch_run pick fns s) \<ge> length fns \<and>
        length rs = length fns \<and>
        (\<forall>i < length fns. fns ! i = TaskDone (the (rs ! i)) \<and> rs ! i \<noteq> None))"
proof (induction pick fns s rule: batch_run.induct)
  case (1 pick fns s)
  let ?i = "bs_running s ! (pick s mod length (bs_running s))"
  from "1.prems" have mem: "?i \<in> set (bs_running s)" by simp
  with "1.prems" have ilt: "?i < length fns" by (auto simp: batch_inv_iff)
  then have ne: "fns \<noteq> []" by auto
  show ?case
  proof (cases "fns ! ?i")
    case (TaskError e)
    with "1.prems" ilt have "fst (batch_run pick fns s) = Some (Inl e)"
      by (subst batch_run.simps) (simp add: Let_def)
    with TaskError ilt show ?thesis by blast
  next
    case (TaskDone r)
    let ?s' = "s\<lparr>bs_results := array_set (bs_results s) ?i r,
                  bs_pending := bs_pending s - 1,
                  bs_running := remove1 ?i (bs_running s)\<rparr>"
    have inv': "batch_inv fns ?s'"
      using batch_inv_complete [OF "1.prems"(1) mem TaskDone] .
    show ?thesis
    proof (cases "bs_pending ?s' \<noteq> 0")
      case True
      have eq: "batch_run pick fns s = batch_run pick fns (batch_next (length fns) ?s')"
        using "1.prems"(2) TaskDone True
        by (subst batch_run.simps) (simp add: Let_def)
      have "batch_inv fns (batch_next (length fns) ?s')"
        using inv' by (rule batch_inv_next)
      moreover have "bs_running (batch_next (length fns) ?s') \<noteq> []"
        using inv' True by (rule batch_next_running)
      ultimately show ?thesis
        using "1.IH" [OF "1.prems"(2) refl TaskDone refl True] eq by simp
    next
      case False
      then have p0: "bs_pending ?s' = 0" by simp
      have eq: "batch_run pick fns s = (Some (Inr (bs_results ?s')), bs_index ?s')"
        using "1.prems"(2) TaskDone False
        by (subst batch_run.simps) (simp add: Let_def)
      from batch_inv_finish [OF inv' p0 ne]
      have fin: "length (bs_results ?s') = length fns \<and>
         (\<forall>i < length fns. fns ! i = TaskDone (the (bs_results ?s' ! i)) \<and> bs_results ?s' ! i \<noteq> None)" .
      from inv' have "length (bs_results ?s') \<le> min (bs_index ?s') (length fns)"
        by (simp add: batch_inv_iff)
      with fin have "length fns \<le> bs_index ?s'" by simp
      with eq fin show ?thesis by simp
    qed
  qed
qed


lemma batch_inv_start:
  "batch_inv fns
     \<lparr> bs_index = min n (length fns),
       bs_running = [0 ..< min n (length fns)],
       bs_results = [],
       bs_pending = int (length fns) \<rparr>"
  by (simp add: batch_inv_iff)

lemma batch_end_result:
  assumes n: "0 < n"
  shows "(\<exists>i e. i < length fns \<and> fns ! i = TaskError e \<and>
            fst (batch_end pick n fns) = Some (Inl e)) \<or>
         (\<exists>rs. fst (batch_end pick n fns) = Some (Inr rs) \<and>
            length rs = length fns \<and>
            (\<forall>i < length fns. fns ! i = TaskDone (the (rs ! i)) \<and> rs ! i \<noteq> None))"
proof (cases "fns = []")
  case True
  then show ?thesis by (simp add: batch_end_def)
next
  case False
  let ?s = "\<lparr> bs_index = min n (length fns), bs_running = [0 ..< min n (length fns)],
              bs_results = [], bs_pending = int (length fns) \<rparr> :: 'a batch_state"
  from False n have run: "bs_running ?s \<noteq> []" by simp
  from batch_run_result [OF batch_inv_start run, of pick] False
  show ?thesis by (simp add: batch_end_def) blast
qed

subsection \<open>The stat pass\<close>

lemma stat_task_done:
  "\<not> stat_fails P fs dir file \<Longrightarrow> stat_task P fs dir file = TaskDone (stat_value P fs dir file)"
  by (auto simp: stat_fails_def stat_task_def stat_value_def split: sum.splits)

lemma stat_task_error:
  "stat_task P fs dir file = TaskError e \<Longrightarrow>
     \<exists>code. fs_stat fs (path_join P [dir, file]) = Inl code \<and> code \<noteq> js ''ENOENT'' \<and>
       e = SystemError code None"
  by (auto simp: stat_task_def split: sum.splits if_splits)

lemma stat_task_fails:
  "stat_fails P fs dir file \<Longrightarrow> \<exists>e. stat_task P fs dir file = TaskError e"
  by (auto simp: stat_fails_def stat_task_def split: sum.splits)

lemma fst_stat: "fst (stat P fs pick dir files) = fst (batch_end pick 10 (map (stat_task P fs dir) files))"
  by (simp add: stat_def split: prod.splits)

lemma stat_all_done:
  assumes ok: "\<forall>file \<in> set files. \<not> stat_fails P fs dir file"
  shows "fst (stat P fs pick dir files)
           = Some (Inr (map (\<lambda>file. Some (stat_value P fs dir file)) files))"
proof -
  let ?fns = "map (stat_task P fs dir) files"
  have tasks: "\<forall>i < length files. ?fns ! i = TaskDone (stat_value P fs dir (files ! i))"
    using ok by (simp add: stat_task_done)
  have "0 < (10::nat)" by simp
  from batch_end_result [OF this, of ?fns pick]
  show ?thesis
  proof
    assume "\<exists>i e. i < length ?fns \<and> ?fns ! i = TaskError e \<and>
              fst (batch_end pick 10 ?fns) = Some (Inl e)"
    with tasks show ?thesis by auto
  next
    assume "\<exists>rs. fst (batch_end pick 10 ?fns) = Some (Inr rs) \<and> length rs = length ?fns \<and>
              (\<forall>i < length ?fns. ?fns ! i = TaskDone (the (rs ! i)) \<and> rs ! i \<noteq> None)"
    then obtain rs where res: "fst (batch_end pick 10 ?fns) = Some (Inr rs)"
      and len: "length rs = length files"
      and vals: "\<forall>i < length files. ?fns ! i = TaskDone (the (rs ! i)) \<and> rs ! i \<noteq> None"
      by auto
    have "rs = map (\<lambda>file. Some (stat_value P fs dir file)) files"
    proof (rule nth_equalityI)
      show "length rs = length (map (\<lambda>file. Some (stat_value P fs dir file)) files)"
        using len by simp
    next
      fix i assume "i < length rs"
      with len have i: "i < length files" by simp
      with vals tasks have "the (rs ! i) = stat_value P fs dir (files ! i)" and "rs ! i \<noteq> None"
        by auto
      with i show "rs ! i = map (\<lambda>file. Some (stat_value P fs dir file)) files ! i"
        by (cases "rs ! i") auto
    qed
    with res show ?thesis by (simp add: fst_stat)
  qed
qed

lemma stat_some_error:
  assumes bad: "\<exists>file \<in> set files. stat_fails P fs dir file"
  shows "\<exists>file \<in> set files. \<exists>code.
           fs_stat fs (path_join P [dir, file]) = Inl code \<and> code \<noteq> js ''ENOENT'' \<and>
           fst (stat P fs pick dir files) = Some (Inl (SystemError code None))"
proof -
  let ?fns = "map (stat_task P fs dir) files"
  from bad obtain k where k: "k < length files" and "stat_fails P fs dir (files ! k)"
    by (auto simp: in_set_conv_nth)
  then obtain e' where bad_task: "?fns ! k = TaskError e'"
    using stat_task_fails [of P fs dir "files ! k"] by auto
  have "0 < (10::nat)" by simp
  from batch_end_result [OF this, of ?fns pick]
  show ?thesis
  proof
    assume "\<exists>i e. i < length ?fns \<and> ?fns ! i = TaskError e \<and>
              fst (batch_end pick 10 ?fns) = Some (Inl e)"
    then obtain i e where i: "i < length files" and t: "stat_task P fs dir (files ! i) = TaskError e"
      and res: "fst (batch_end pick 10 ?fns) = Some (Inl e)" by auto
    from stat_task_error [OF t] obtain code where
      "fs_stat fs (path_join P [dir, files ! i]) = Inl code" "code \<noteq> js ''ENOENT''"
      "e = SystemError code None" by auto
    with res i show ?thesis by (auto simp: fst_stat intro!: bexI [of _ "files ! i"])
  next
    assume "\<exists>rs. fst (batch_end pick 10 ?fns) = Some (Inr rs) \<and> length rs = length ?fns \<and>
              (\<forall>i < length ?fns. ?fns ! i = TaskDone (the (rs ! i)) \<and> rs ! i \<noteq> None)"
    with k bad_task show ?thesis by auto
  qed
qed

subsection \<open>The handler, stage by stage\<close>

lemma mediaType_values:
  "mediaType (js ''text/html'') = Some (js ''html'')"
  "mediaType (js ''text/plain'') = Some (js ''plain'')"
  "mediaType (js ''application/json'') = Some (js ''json'')"
  by (simp_all add: mediaType_def js_def)

lemma renderer_names:
  "js ''html'' \<noteq> js ''json''" "js ''html'' \<noteq> js ''plain''" "js ''json'' \<noteq> js ''plain''"
  "js ''plain'' \<noteq> js ''html''" "js ''plain'' \<noteq> js ''json''" "js ''json'' \<noteq> js ''html''"
  by (simp_all add: js_def)

lemma resolve_request_Inr:
  "(resolve_request P cfg req = Inr (originalDir, path, showUp)) =
     ((req_method req = js ''GET'' \<or> req_method req = js ''HEAD'') \<and>
      (\<exists>dir. decodeURIComponent (req_pathname req) = Some dir \<and>
         path = path_normalize P (path_join P [cfg_rootPath cfg, dir])) \<and>
      decodeURIComponent (req_originalPathname req) = Some originalDir \<and>
      0 \<notin> set path \<and>
      substr0 (path @ path_sep P) (length (cfg_rootPath cfg)) = cfg_rootPath cfg \<and>
      showUp = (path_normalize P (path_resolve P path @ path_sep P) \<noteq> cfg_rootPath cfg))"
  by (auto simp: resolve_request_def Let_def bitnot_indexOf split: option.splits)

lemma handler_resolved:
  "resolve_request (env_path E) cfg req = Inr (originalDir, path, showUp) \<Longrightarrow>
     handler E cfg req =
       (case stat_callback E cfg req originalDir showUp path (fs_stat (env_fs E) path) of
          (out, ops) \<Rightarrow> (out, OpStat path # ops))"
  by (simp add: handler_def)

lemma handler_listing:
  "reaches_listing E cfg req originalDir path showUp files0 \<Longrightarrow>
     handler E cfg req =
       (case readdir_callback E cfg req originalDir showUp path (Inr files0) of
          (out, ops) \<Rightarrow> (out, OpStat path # OpReaddir path # ops))"
  by (auto simp: reaches_listing_def handler_def stat_callback_def split: sum.splits prod.splits)

lemma handler_json:
  "reaches_listing E cfg req originalDir path showUp files0 \<Longrightarrow>
   env_accepts_type E req mediaTypes = Some (js ''application/json'') \<Longrightarrow>
     handler E cfg req =
       (Sent (js ''application/json'') (JSON_stringify (sort files0)),
        [OpStat path, OpReaddir path])"
  by (simp add: handler_listing readdir_callback_def mediaType_values renderer_names
      serveIndex_json_def send_def)

lemma handler_plain:
  "reaches_listing E cfg req originalDir path showUp files0 \<Longrightarrow>
   env_accepts_type E req mediaTypes = Some (js ''text/plain'') \<Longrightarrow>
     handler E cfg req =
       (Sent (js ''text/plain'') (join_with [0x0A] (sort files0) @ [0x0A]),
        [OpStat path, OpReaddir path])"
  by (simp add: handler_listing readdir_callback_def mediaType_values renderer_names
      serveIndex_plain_def send_def)

lemma handler_not_acceptable:
  "reaches_listing E cfg req originalDir path showUp files0 \<Longrightarrow>
   env_accepts_type E req mediaTypes = None \<Longrightarrow>
     handler E cfg req = (Next (Some (HttpError 406)), [OpStat path, OpReaddir path])"
  by (simp add: handler_listing readdir_callback_def)

lemma fileList_of_names: "map fe_name (fileList_of files stats) = files"
proof -
  have "map fe_name (fileList_of files stats) = map fst (zip files [0 ..< length files])"
    by (simp add: fileList_of_def case_prod_unfold comp_def)
  then show ?thesis by simp
qed

lemma serveIndex_html_ready:
  assumes ready: "html_ready E cfg path (unshift_parent showUp files) style"
  shows "fst (serveIndex_html E cfg files dir showUp path) =
           render_callback (fst (render_of E cfg
             (html_locals cfg dir
                (fileList_of (unshift_parent showUp files)
                   (stat_values (env_path E) (env_fs E) path (unshift_parent showUp files)))
                path style)))"
proof -
  let ?names = "unshift_parent showUp files"
  from ready have ok: "\<forall>file \<in> set ?names. \<not> stat_fails (env_path E) (env_fs E) path file"
    and css: "fs_readFile (env_fs E) (cfg_stylesheet cfg) = Inr style"
    by (simp_all add: html_ready_def list_all_iff)
  from stat_all_done [OF ok, of "env_pick E"]
  have "fst (stat (env_path E) (env_fs E) (env_pick E) path ?names)
          = Some (Inr (stat_values (env_path E) (env_fs E) path ?names))"
    by (simp add: stat_values_def)
  then obtain ops where
    "stat (env_path E) (env_fs E) (env_pick E) path ?names
       = (Some (Inr (stat_values (env_path E) (env_fs E) path ?names)), ops)"
    by (cases "stat (env_path E) (env_fs E) (env_pick E) path ?names") auto
  with css show ?thesis
    by (simp add: serveIndex_html_def Let_def split: prod.splits)
qed

lemma handler_html:
  assumes "reaches_listing E cfg req originalDir path showUp files0"
    and "env_accepts_type E req mediaTypes = Some (js ''text/html'')"
    and "html_ready E cfg path (unshift_parent showUp (sort files0)) style"
  shows "fst (handler E cfg req) =
           render_callback (fst (render_of E cfg
             (html_locals cfg originalDir
                (fileList_of (unshift_parent showUp (sort files0))
                   (stat_values (env_path E) (env_fs E) path (unshift_parent showUp (sort files0))))
                path style)))"
proof -
  from assms(1,2) have "fst (handler E cfg req)
      = fst (serveIndex_html E cfg (sort files0) originalDir showUp path)"
    by (simp add: handler_listing readdir_callback_def mediaType_values split: prod.splits)
  with serveIndex_html_ready [OF assms(3)] show ?thesis by simp
qed


lemma serveIndex_html_stat_error:
  assumes bad: "\<exists>file \<in> set (unshift_parent showUp files).
            stat_fails (env_path E) (env_fs E) path file"
  shows "\<exists>file \<in> set (unshift_parent showUp files). \<exists>code.
           fs_stat (env_fs E) (path_join (env_path E) [path, file]) = Inl code \<and>
           code \<noteq> js ''ENOENT'' \<and>
           fst (serveIndex_html E cfg files dir showUp path)
             = Next (Some (SystemError code None))"
proof -
  let ?names = "unshift_parent showUp files"
  from stat_some_error [OF bad, of "env_pick E"]
  obtain entry code where f: "entry \<in> set ?names"
    and c: "fs_stat (env_fs E) (path_join (env_path E) [path, entry]) = Inl code"
      "code \<noteq> js ''ENOENT''"
    and r: "fst (stat (env_path E) (env_fs E) (env_pick E) path ?names)
              = Some (Inl (SystemError code None))"
    by blast
  from r obtain ops where
    "stat (env_path E) (env_fs E) (env_pick E) path ?names
       = (Some (Inl (SystemError code None)), ops)"
    by (cases "stat (env_path E) (env_fs E) (env_pick E) path ?names") auto
  then have "fst (serveIndex_html E cfg files dir showUp path)
      = Next (Some (SystemError code None))"
    by (simp add: serveIndex_html_def Let_def)
  with f c show ?thesis by blast
qed

section \<open>The example installation, evaluated\<close>

lemmas ex_defs = js_def ex_env_def ex_path_def posix_def ex_config_def ex_fs_def ex_files_def
  ex_dirs_def ex_request_def ex_accepts_type_def
lemmas path_defs = posix_join_def posix_normalize_def posix_resolve_def normalizeString_def
  split_on_def
lemmas decode_defs = decodeURIComponent_def ParseHexOctet_def hexDigit_def utf8_value_def
  UTF16EncodeCodePoint_def
lemmas check_defs = resolve_request_def bitnot_def indexOf_def substr0_def Let_def

lemma ex_docs_resolved:
  "resolve_request (env_path ex_env) ex_config (ex_request ''GET'' ''/docs'' a)
     = Inr (js ''/docs'', js ''/srv/www/docs'', True)"
  by (simp add: ex_defs path_defs decode_defs check_defs)

lemma ex_root_resolved:
  "resolve_request (env_path ex_env) ex_config (ex_request ''GET'' ''/'' a)
     = Inr (js ''/'', js ''/srv/www/'', False)"
  by (simp add: ex_defs path_defs decode_defs check_defs)

lemma ex_docs_listing:
  "reaches_listing ex_env ex_config (ex_request ''GET'' ''/docs'' a) (js ''/docs'')
     (js ''/srv/www/docs'') True [js ''b.txt'', js ''gone'', js ''a.txt'']"
  unfolding reaches_listing_def ex_docs_resolved by (simp add: ex_defs)

lemma ex_root_listing:
  "reaches_listing ex_env ex_config (ex_request ''GET'' ''/'' a) (js ''/'')
     (js ''/srv/www/'') False [js ''readme.txt'', js ''docs'', js ''vault'']"
  unfolding reaches_listing_def ex_root_resolved by (simp add: ex_defs)

lemma ex_docs_sorted:
  "sort [js ''b.txt'', js ''gone'', js ''a.txt''] = [js ''a.txt'', js ''b.txt'', js ''gone'']"
  by (simp add: js_def)

lemma ex_root_sorted:
  "sort [js ''readme.txt'', js ''docs'', js ''vault'']
     = [js ''docs'', js ''readme.txt'', js ''vault'']"
  by (simp add: js_def)

lemma ex_accepts:
  "env_accepts_type ex_env (ex_request m u ''application/json'') mediaTypes
     = Some (js ''application/json'')"
  "env_accepts_type ex_env (ex_request m u ''text/plain'') mediaTypes = Some (js ''text/plain'')"
  "env_accepts_type ex_env (ex_request m u ''text/html'') mediaTypes = Some (js ''text/html'')"
  "env_accepts_type ex_env (ex_request m u ''text/xml'') mediaTypes = None"
  by (simp_all add: ex_defs mediaTypes_def)

lemma ex_docs_ready:
  "html_ready ex_env ex_config (js ''/srv/www/docs'')
     [js ''..'', js ''a.txt'', js ''b.txt'', js ''gone''] (js ''{files}'')"
  by (simp add: html_ready_def stat_fails_def ex_defs path_defs)

lemma ex_root_ready:
  "html_ready ex_env ex_config (js ''/srv/www/'')
     [js ''docs'', js ''readme.txt'', js ''vault''] (js ''{files}'')"
  by (simp add: html_ready_def stat_fails_def ex_defs path_defs)

lemma ex_docs_values:
  "stat_values (env_path ex_env) (env_fs ex_env) (js ''/srv/www/docs'')
     [js ''..'', js ''a.txt'', js ''b.txt'', js ''gone'']
   = [Some (Some (Stats True 4096 0)), Some (Some (Stats False 12 0)),
      Some (Some (Stats False 7 0)), Some None]"
  by (simp add: stat_values_def stat_value_def ex_defs path_defs)

lemma ex_targets:
  "resolve_request (env_path ex_env) ex_config (ex_request ''GET'' ''/nothing'' ''text/html'')
     = Inr (js ''/nothing'', js ''/srv/www/nothing'', True)"
  "fs_stat (env_fs ex_env) (js ''/srv/www/nothing'') = Inl (js ''ENOENT'')"
  "resolve_request (env_path ex_env) ex_config (ex_request ''GET'' ''/readme.txt'' ''text/html'')
     = Inr (js ''/readme.txt'', js ''/srv/www/readme.txt'', True)"
  "fs_stat (env_fs ex_env) (js ''/srv/www/readme.txt'') = Inr (Stats False 5 0)"
  "resolve_request (env_path ex_env) ex_config (ex_request ''GET'' ''/locked'' ''text/html'')
     = Inr (js ''/locked'', js ''/srv/www/locked'', True)"
  "fs_stat (env_fs ex_env) (js ''/srv/www/locked'') = Inl (js ''EACCES'')"
  "resolve_request (env_path ex_env) ex_config (ex_request ''GET'' ''/long'' ''text/html'')
     = Inr (js ''/long'', js ''/srv/www/long'', True)"
  "fs_stat (env_fs ex_env) (js ''/srv/www/long'') = Inl (js ''ENAMETOOLONG'')"
  by (simp_all add: ex_defs path_defs decode_defs check_defs)

lemma ex_method:
  "req_method (ex_request ''GET'' u a) = js ''GET''
     \<or> req_method (ex_request ''GET'' u a) = js ''HEAD''"
  by (simp add: ex_request_def)

lemma ex_unshift:
  "unshift_parent True names = js ''..'' # names" "unshift_parent False names = names"
  by (simp_all add: unshift_parent_def)

lemma ex_render_names:
  "render_callback (fst (render_of ex_env ex_config
      (html_locals ex_config dir (fileList_of names stats) path style)))
   = Sent (js ''text/html'') (join_with [0x0A] names)"
  by (simp add: render_of_def ex_config_def ex_render_def html_locals_def fileList_of_names
      render_callback_def send_def)

lemma ex_docs_ready':
  "html_ready ex_env ex_config (js ''/srv/www/docs'')
     (unshift_parent True (sort [js ''b.txt'', js ''gone'', js ''a.txt''])) (js ''{files}'')"
  unfolding ex_docs_sorted ex_unshift by (rule ex_docs_ready)

lemma ex_root_ready':
  "html_ready ex_env ex_config (js ''/srv/www/'')
     (sort [js ''readme.txt'', js ''docs'', js ''vault'']) (js ''{files}'')"
  unfolding ex_root_sorted by (rule ex_root_ready)

lemma ex_no_parent: "js ''..'' \<notin> set [js ''readme.txt'', js ''docs'', js ''vault'']"
  by (simp add: js_def)

lemma ex_codes:
  "js ''EACCES'' \<noteq> js ''ENOENT''" "js ''ENAMETOOLONG'' \<noteq> js ''ENOENT''"
  "js ''EACCES'' \<noteq> js ''ENAMETOOLONG''"
  by (simp_all add: js_def)

lemma ex_docs_ok:
  "\<forall>file \<in> set [js ''a.txt'', js ''gone'', js ''b.txt''].
     \<not> stat_fails ex_path ex_fs (js ''/srv/www/docs'') file"
  by (simp add: stat_fails_def ex_defs path_defs)

lemma ex_docs_stats:
  "map (\<lambda>file. Some (stat_value ex_path ex_fs (js ''/srv/www/docs'') file))
     [js ''a.txt'', js ''gone'', js ''b.txt'']
   = [Some (Some (Stats False 12 0)), Some None, Some (Some (Stats False 7 0))]"
  by (simp add: stat_value_def ex_defs path_defs)

lemma ex_vault_key:
  "fs_stat ex_fs (path_join ex_path [js ''/srv/www/vault'', js ''key'']) = Inl (js ''EACCES'')"
  by (simp add: ex_defs path_defs)

lemma ex_docs_gone:
  "fs_stat ex_fs (path_join ex_path [js ''/srv/www/docs'', js ''gone'']) = Inl (js ''ENOENT'')"
  by (simp add: ex_defs path_defs)

section \<open>Construction\<close>

text \<open>
  C10. A falsy root (a missing argument, \<open>null\<close>, the empty string, \<open>false\<close>) makes
  \<open>serveIndex(root, options)\<close> throw the \<open>TypeError\<close> "serveIndex() root path required"
  instead of returning a handler, whatever the options.
\<close>

theorem serveIndex_falsy_root_throws:
  "\<not> ToBoolean root \<Longrightarrow>
     serveIndex P dirname root options = Inl (TypeError (js ''serveIndex() root path required''))"
  by (simp add: serveIndex_def)

theorem serveIndex_falsy_root_throws_witness:
  "\<not> ToBoolean JSUndefined \<and> \<not> ToBoolean JSNull \<and> \<not> ToBoolean (JSString []) \<and>
   serveIndex ex_path (js ''/opt/serve-index'') JSUndefined None
     = Inl (TypeError (js ''serveIndex() root path required'')) \<and>
   serveIndex ex_path (js ''/opt/serve-index'') JSNull (Some ex_options)
     = Inl (TypeError (js ''serveIndex() root path required'')) \<and>
   serveIndex ex_path (js ''/opt/serve-index'') (JSString []) (Some ex_options)
     = Inl (TypeError (js ''serveIndex() root path required''))"
  using serveIndex_falsy_root_throws [of JSUndefined ex_path "js ''/opt/serve-index''" None]
    serveIndex_falsy_root_throws [of JSNull ex_path "js ''/opt/serve-index''" "Some ex_options"]
    serveIndex_falsy_root_throws [of "JSString []" ex_path "js ''/opt/serve-index''" "Some ex_options"]
  by simp

section \<open>The path checks\<close>

text \<open>
  C1, as amended. For a GET or HEAD request whose path component and original path
  component both decode: if the candidate path (the decoded path joined onto the root
  and normalized), with a separator appended, does not start with the root, the handler
  calls \<open>next\<close> with a 403 error, unless the candidate contains a NUL unit, in which
  case the error is the 400 of the earlier check. In both cases the file system is not
  touched, so no listing is produced.
\<close>

theorem outside_root_rejected:
  assumes "req_method req = js ''GET'' \<or> req_method req = js ''HEAD''"
    and "decodeURIComponent (req_pathname req) = Some dir"
    and "decodeURIComponent (req_originalPathname req) = Some originalDir"
    and "path = path_normalize (env_path E) (path_join (env_path E) [cfg_rootPath cfg, dir])"
    and "substr0 (path @ path_sep (env_path E)) (length (cfg_rootPath cfg)) \<noteq> cfg_rootPath cfg"
  shows "handler E cfg req = (Next (Some (HttpError (if 0 \<in> set path then 400 else 403))), [])"
  using assms by (auto simp: handler_def resolve_request_def Let_def bitnot_indexOf)

theorem outside_root_rejected_witness:
  "(req_method (ex_request ''GET'' ''/../../etc'' ''text/html'') = js ''GET''
      \<or> req_method (ex_request ''GET'' ''/../../etc'' ''text/html'') = js ''HEAD'') \<and>
   decodeURIComponent (req_pathname (ex_request ''GET'' ''/../../etc'' ''text/html''))
     = Some (js ''/../../etc'') \<and>
   decodeURIComponent (req_originalPathname (ex_request ''GET'' ''/../../etc'' ''text/html''))
     = Some (js ''/../../etc'') \<and>
   js ''/etc'' = path_normalize (env_path ex_env)
       (path_join (env_path ex_env) [cfg_rootPath ex_config, js ''/../../etc'']) \<and>
   substr0 (js ''/etc'' @ path_sep (env_path ex_env)) (length (cfg_rootPath ex_config))
     \<noteq> cfg_rootPath ex_config \<and>
   handler ex_env ex_config (ex_request ''GET'' ''/../../etc'' ''text/html'')
     = (Next (Some (HttpError 403)), [])"
proof -
  let ?r = "ex_request ''GET'' ''/../../etc'' ''text/html''"
  have h2: "decodeURIComponent (req_pathname ?r) = Some (js ''/../../etc'')"
    by (simp add: ex_defs decode_defs)
  have h3: "decodeURIComponent (req_originalPathname ?r) = Some (js ''/../../etc'')"
    by (simp add: ex_defs decode_defs)
  have h4: "js ''/etc'' = path_normalize (env_path ex_env)
       (path_join (env_path ex_env) [cfg_rootPath ex_config, js ''/../../etc''])"
    by (simp add: ex_defs path_defs)
  have h5: "substr0 (js ''/etc'' @ path_sep (env_path ex_env)) (length (cfg_rootPath ex_config))
     \<noteq> cfg_rootPath ex_config"
    by (simp add: ex_defs substr0_def)
  have nul: "(0::code_unit) \<notin> set (js ''/etc'')" by (simp add: js_def)
  from outside_root_rejected [OF ex_method h2 h3 h4 h5] nul
  have "handler ex_env ex_config ?r = (Next (Some (HttpError 403)), [])" by simp
  with ex_method h2 h3 h4 h5 show ?thesis by blast
qed

text \<open>
  C1 as stated fails: \<open>GET /../%00\<close> decodes and normalizes to \<open>/srv/\<close> followed by a
  NUL unit, which lies outside the root \<open>/srv/www/\<close>, and is answered with 400, not 403.
\<close>

theorem outside_root_counterexample:
  "decodeURIComponent (req_pathname (ex_request ''GET'' ''/../%00'' ''text/html''))
     = Some (js ''/../'' @ [0]) \<and>
   path_normalize (env_path ex_env)
       (path_join (env_path ex_env) [cfg_rootPath ex_config, js ''/../'' @ [0]])
     = js ''/srv/'' @ [0] \<and>
   substr0 ((js ''/srv/'' @ [0]) @ path_sep (env_path ex_env)) (length (cfg_rootPath ex_config))
     \<noteq> cfg_rootPath ex_config \<and>
   handler ex_env ex_config (ex_request ''GET'' ''/../%00'' ''text/html'')
     = (Next (Some (HttpError 400)), []) \<and>
   fst (handler ex_env ex_config (ex_request ''GET'' ''/../%00'' ''text/html''))
     \<noteq> Next (Some (HttpError 403))"
  by (simp add: handler_def ex_defs path_defs decode_defs check_defs)

text \<open>
  C2, as amended. For a GET or HEAD request whose path component, or original path
  component, is not a valid percent-encoding, \<open>decodeURIComponent\<close> throws and the
  handler does not catch it: the call ends with a \<open>URIError\<close>; \<open>next\<close> is not called,
  no error with a status is made and the file system is not touched.
\<close>

theorem malformed_url_throws:
  assumes "req_method req = js ''GET'' \<or> req_method req = js ''HEAD''"
    and "decodeURIComponent (req_pathname req) = None
           \<or> decodeURIComponent (req_originalPathname req) = None"
  shows "handler E cfg req = (Threw URIError, [])"
  using assms by (auto simp: handler_def resolve_request_def split: option.splits)

theorem malformed_url_throws_witness:
  "(req_method (ex_request ''GET'' ''/docs%C3'' ''text/html'') = js ''GET''
      \<or> req_method (ex_request ''GET'' ''/docs%C3'' ''text/html'') = js ''HEAD'') \<and>
   (decodeURIComponent (req_pathname (ex_request ''GET'' ''/docs%C3'' ''text/html'')) = None
      \<or> decodeURIComponent (req_originalPathname (ex_request ''GET'' ''/docs%C3'' ''text/html''))
           = None) \<and>
   handler ex_env ex_config (ex_request ''GET'' ''/docs%C3'' ''text/html'') = (Threw URIError, [])"
proof -
  let ?r = "ex_request ''GET'' ''/docs%C3'' ''text/html''"
  have h: "decodeURIComponent (req_pathname ?r) = None
      \<or> decodeURIComponent (req_originalPathname ?r) = None"
    by (simp add: ex_defs decode_defs)
  from malformed_url_throws [OF ex_method h, of ex_env ex_config] ex_method h
  show ?thesis by blast
qed

text \<open>
  C2 as stated fails: \<open>GET /%zz\<close> does not decode, and the handler throws instead of
  calling \<open>next\<close> with a 400 error.
\<close>

theorem malformed_url_counterexample:
  "decodeURIComponent (req_pathname (ex_request ''GET'' ''/%zz'' ''text/html'')) = None \<and>
   handler ex_env ex_config (ex_request ''GET'' ''/%zz'' ''text/html'') = (Threw URIError, []) \<and>
   fst (handler ex_env ex_config (ex_request ''GET'' ''/%zz'' ''text/html''))
     \<noteq> Next (Some (HttpError 400))"
  by (simp add: handler_def ex_defs decode_defs check_defs)

text \<open>
  C4, as amended. For a GET or HEAD request whose path component and original path
  component both decode and whose candidate path contains a NUL unit, the handler calls
  \<open>next\<close> with a 400 error and makes no file system call.
\<close>

theorem nul_byte_bad_request:
  assumes "req_method req = js ''GET'' \<or> req_method req = js ''HEAD''"
    and "decodeURIComponent (req_pathname req) = Some dir"
    and "decodeURIComponent (req_originalPathname req) = Some originalDir"
    and "0 \<in> set (path_normalize (env_path E) (path_join (env_path E) [cfg_rootPath cfg, dir]))"
  shows "handler E cfg req = (Next (Some (HttpError 400)), [])"
  using assms by (auto simp: handler_def resolve_request_def Let_def bitnot_indexOf)

theorem nul_byte_bad_request_witness:
  "(req_method (ex_request ''GET'' ''/docs/%00'' ''text/html'') = js ''GET''
      \<or> req_method (ex_request ''GET'' ''/docs/%00'' ''text/html'') = js ''HEAD'') \<and>
   decodeURIComponent (req_pathname (ex_request ''GET'' ''/docs/%00'' ''text/html''))
     = Some (js ''/docs/'' @ [0]) \<and>
   decodeURIComponent (req_originalPathname (ex_request ''GET'' ''/docs/%00'' ''text/html''))
     = Some (js ''/docs/'' @ [0]) \<and>
   0 \<in> set (path_normalize (env_path ex_env)
       (path_join (env_path ex_env) [cfg_rootPath ex_config, js ''/docs/'' @ [0]])) \<and>
   handler ex_env ex_config (ex_request ''GET'' ''/docs/%00'' ''text/html'')
     = (Next (Some (HttpError 400)), [])"
proof -
  let ?r = "ex_request ''GET'' ''/docs/%00'' ''text/html''"
  have h2: "decodeURIComponent (req_pathname ?r) = Some (js ''/docs/'' @ [0])"
    by (simp add: ex_defs decode_defs)
  have h3: "decodeURIComponent (req_originalPathname ?r) = Some (js ''/docs/'' @ [0])"
    by (simp add: ex_defs decode_defs)
  have h4: "0 \<in> set (path_normalize (env_path ex_env)
       (path_join (env_path ex_env) [cfg_rootPath ex_config, js ''/docs/'' @ [0]]))"
    by (simp add: ex_defs path_defs)
  from nul_byte_bad_request [OF ex_method h2 h3 h4] ex_method h2 h3 h4
  show ?thesis by blast
qed

text \<open>
  C4 as stated fails for requests that do not reach the check: \<open>POST /%00\<close>, whose path
  decodes to one with a NUL unit, is answered with 405 by the method gate; and a GET
  request for \<open>/%00\<close> below a mount point whose original URL does not decode ends
  with the \<open>URIError\<close> of line 105.
\<close>

theorem nul_byte_counterexample:
  "decodeURIComponent (js ''/%00'') = Some [0x2F, 0] \<and>
   path_normalize (env_path ex_env)
       (path_join (env_path ex_env) [cfg_rootPath ex_config, [0x2F, 0]])
     = js ''/srv/www/'' @ [0] \<and>
   fst (handler ex_env ex_config (ex_request ''POST'' ''/%00'' ''text/html''))
     = Ended 405 [(js ''Allow'', js ''GET, HEAD, OPTIONS''), (js ''Content-Length'', js ''0'')] \<and>
   fst (handler ex_env ex_config (ex_request ''POST'' ''/%00'' ''text/html''))
     \<noteq> Next (Some (HttpError 400)) \<and>
   fst (handler ex_env ex_config
          \<lparr> req_method = js ''GET'', req_pathname = js ''/%00'',
            req_originalPathname = js ''/files%/%00'', req_accept = None \<rparr>)
     = Threw URIError"
  by (simp add: handler_def ex_defs path_defs decode_defs check_defs)

text \<open>
  C6. For a request that passes the path checks, \<open>showUp\<close> is true if and only if the
  path, resolved, with a separator appended and normalized, differs from the root. When
  it equals the root and the directory is listed, no \<open>..\<close> is prepended: each renderer
  works on the sorted names that \<open>readdir\<close> returned, which hold no \<open>..\<close> unless
  \<open>readdir\<close> returned one.
\<close>

theorem showUp_iff_not_root:
  assumes "resolve_request (env_path E) cfg req = Inr (originalDir, path, showUp)"
  shows "(showUp \<longleftrightarrow>
            path_normalize (env_path E) (path_resolve (env_path E) path @ path_sep (env_path E))
              \<noteq> cfg_rootPath cfg) \<and>
         (path_normalize (env_path E) (path_resolve (env_path E) path @ path_sep (env_path E))
              = cfg_rootPath cfg \<and>
          reaches_listing E cfg req originalDir path showUp files0 \<and>
          js ''..'' \<notin> set files0 \<longrightarrow>
            unshift_parent showUp (sort files0) = sort files0 \<and>
            js ''..'' \<notin> set (sort files0) \<and>
            (env_accepts_type E req mediaTypes = Some (js ''application/json'') \<longrightarrow>
               fst (handler E cfg req)
                 = Sent (js ''application/json'') (JSON_stringify (sort files0))) \<and>
            (env_accepts_type E req mediaTypes = Some (js ''text/plain'') \<longrightarrow>
               fst (handler E cfg req)
                 = Sent (js ''text/plain'') (join_with [0x0A] (sort files0) @ [0x0A])) \<and>
            (env_accepts_type E req mediaTypes = Some (js ''text/html'') \<and>
             html_ready E cfg path (sort files0) style \<longrightarrow>
               fst (handler E cfg req)
                 = render_callback (fst (render_of E cfg
                     (html_locals cfg originalDir
                        (fileList_of (sort files0)
                           (stat_values (env_path E) (env_fs E) path (sort files0)))
                        path style))) \<and>
               js ''..'' \<notin> set (map fe_name
                  (fileList_of (sort files0)
                     (stat_values (env_path E) (env_fs E) path (sort files0))))))"
proof -
  from assms have flag: "showUp \<longleftrightarrow>
      path_normalize (env_path E) (path_resolve (env_path E) path @ path_sep (env_path E))
        \<noteq> cfg_rootPath cfg"
    by (simp add: resolve_request_Inr)
  { assume root: "path_normalize (env_path E)
          (path_resolve (env_path E) path @ path_sep (env_path E)) = cfg_rootPath cfg"
      and rl: "reaches_listing E cfg req originalDir path showUp files0"
      and nd: "js ''..'' \<notin> set files0"
    from root flag have up: "\<not> showUp" by simp
    then have same: "unshift_parent showUp (sort files0) = sort files0"
      by (simp add: unshift_parent_def)
    have "unshift_parent showUp (sort files0) = sort files0 \<and>
            js ''..'' \<notin> set (sort files0) \<and>
            (env_accepts_type E req mediaTypes = Some (js ''application/json'') \<longrightarrow>
               fst (handler E cfg req)
                 = Sent (js ''application/json'') (JSON_stringify (sort files0))) \<and>
            (env_accepts_type E req mediaTypes = Some (js ''text/plain'') \<longrightarrow>
               fst (handler E cfg req)
                 = Sent (js ''text/plain'') (join_with [0x0A] (sort files0) @ [0x0A])) \<and>
            (env_accepts_type E req mediaTypes = Some (js ''text/html'') \<and>
             html_ready E cfg path (sort files0) style \<longrightarrow>
               fst (handler E cfg req)
                 = render_callback (fst (render_of E cfg
                     (html_locals cfg originalDir
                        (fileList_of (sort files0)
                           (stat_values (env_path E) (env_fs E) path (sort files0)))
                        path style))) \<and>
               js ''..'' \<notin> set (map fe_name
                  (fileList_of (sort files0)
                     (stat_values (env_path E) (env_fs E) path (sort files0)))))"
      using same nd handler_json [OF rl] handler_plain [OF rl]
        handler_html [OF rl, of style]
      by (simp add: fileList_of_names)
  }
  with flag show ?thesis by blast
qed

theorem showUp_iff_not_root_witness:
  "resolve_request (env_path ex_env) ex_config (ex_request ''GET'' ''/'' ''text/html'')
     = Inr (js ''/'', js ''/srv/www/'', False) \<and>
   path_normalize (env_path ex_env)
       (path_resolve (env_path ex_env) (js ''/srv/www/'') @ path_sep (env_path ex_env))
     = cfg_rootPath ex_config \<and>
   reaches_listing ex_env ex_config (ex_request ''GET'' ''/'' ''text/html'') (js ''/'')
     (js ''/srv/www/'') False [js ''readme.txt'', js ''docs'', js ''vault''] \<and>
   js ''..'' \<notin> set [js ''readme.txt'', js ''docs'', js ''vault''] \<and>
   env_accepts_type ex_env (ex_request ''GET'' ''/'' ''text/html'') mediaTypes
     = Some (js ''text/html'') \<and>
   html_ready ex_env ex_config (js ''/srv/www/'')
     (sort [js ''readme.txt'', js ''docs'', js ''vault'']) (js ''{files}'') \<and>
   fst (handler ex_env ex_config (ex_request ''GET'' ''/'' ''text/html''))
     = Sent (js ''text/html'') (join_with [0x0A] [js ''docs'', js ''readme.txt'', js ''vault'']) \<and>
   resolve_request (env_path ex_env) ex_config (ex_request ''GET'' ''/docs'' ''text/html'')
     = Inr (js ''/docs'', js ''/srv/www/docs'', True) \<and>
   path_normalize (env_path ex_env)
       (path_resolve (env_path ex_env) (js ''/srv/www/docs'') @ path_sep (env_path ex_env))
     \<noteq> cfg_rootPath ex_config"
proof -
  note r = showUp_iff_not_root [OF ex_root_resolved,
      of "''text/html''" "[js ''readme.txt'', js ''docs'', js ''vault'']" "js ''{files}''",
      unfolded ex_root_sorted ex_render_names]
  note d = showUp_iff_not_root [OF ex_docs_resolved, of "''text/html''"]
  from r d ex_root_resolved ex_docs_resolved ex_root_listing ex_no_parent ex_accepts
    ex_root_ready ex_root_ready'
  show ?thesis by blast
qed

section \<open>The target of the request\<close>

text \<open>
  C8. For a request that passes the path checks (so a GET or HEAD request): if the stat
  of the path fails with \<open>ENOENT\<close>, or succeeds on something that is not a directory,
  the handler calls \<open>next\<close> without an error; if it fails with any other code, the
  handler calls \<open>next\<close> with that error, its status set to 414 for \<open>ENAMETOOLONG\<close> and
  to 500 otherwise. The stat is the only file system call made.
\<close>

theorem stat_failure_outcomes:
  assumes "resolve_request (env_path E) cfg req = Inr (originalDir, path, showUp)"
  shows "(fs_stat (env_fs E) path = Inl (js ''ENOENT'') \<longrightarrow>
            handler E cfg req = (Next None, [OpStat path])) \<and>
         (\<forall>st. fs_stat (env_fs E) path = Inr st \<and> \<not> isDirectory st \<longrightarrow>
            handler E cfg req = (Next None, [OpStat path])) \<and>
         (\<forall>code. fs_stat (env_fs E) path = Inl code \<and> code \<noteq> js ''ENOENT'' \<longrightarrow>
            handler E cfg req =
              (Next (Some (SystemError code
                 (Some (if code = js ''ENAMETOOLONG'' then 414 else 500)))), [OpStat path]))"
  using assms by (simp add: handler_resolved stat_callback_def)

theorem stat_failure_outcomes_witness:
  "resolve_request (env_path ex_env) ex_config (ex_request ''GET'' ''/nothing'' ''text/html'')
     = Inr (js ''/nothing'', js ''/srv/www/nothing'', True) \<and>
   fs_stat (env_fs ex_env) (js ''/srv/www/nothing'') = Inl (js ''ENOENT'') \<and>
   handler ex_env ex_config (ex_request ''GET'' ''/nothing'' ''text/html'')
     = (Next None, [OpStat (js ''/srv/www/nothing'')]) \<and>
   fs_stat (env_fs ex_env) (js ''/srv/www/readme.txt'') = Inr (Stats False 5 0) \<and>
   handler ex_env ex_config (ex_request ''GET'' ''/readme.txt'' ''text/html'')
     = (Next None, [OpStat (js ''/srv/www/readme.txt'')]) \<and>
   fs_stat (env_fs ex_env) (js ''/srv/www/locked'') = Inl (js ''EACCES'') \<and>
   handler ex_env ex_config (ex_request ''GET'' ''/locked'' ''text/html'')
     = (Next (Some (SystemError (js ''EACCES'') (Some 500))), [OpStat (js ''/srv/www/locked'')]) \<and>
   fs_stat (env_fs ex_env) (js ''/srv/www/long'') = Inl (js ''ENAMETOOLONG'') \<and>
   handler ex_env ex_config (ex_request ''GET'' ''/long'' ''text/html'')
     = (Next (Some (SystemError (js ''ENAMETOOLONG'') (Some 414))),
        [OpStat (js ''/srv/www/long'')])"
  using stat_failure_outcomes [OF ex_targets(1)] stat_failure_outcomes [OF ex_targets(3)]
    stat_failure_outcomes [OF ex_targets(5)] stat_failure_outcomes [OF ex_targets(7)]
    ex_targets ex_codes
  by simp

section \<open>The per-entry stat pass\<close>

text \<open>
  C7. Whatever the order in which the stat calls complete (\<open>pick\<close>): if no name fails
  with an error other than \<open>ENOENT\<close>, the callback receives an array with one slot per
  name, in the order of the names, holding the stat of the name or \<open>null\<close> where the
  name is gone (\<open>ENOENT\<close>); if some name fails with another error, the callback
  receives such an error of one of the names and no array, and \<open>serveIndex.html\<close>
  hands that error to \<open>next\<close> instead of rendering a page.
\<close>

theorem stat_positional:
  "((\<forall>file \<in> set files. \<not> stat_fails P fs dir file) \<longrightarrow>
      fst (stat P fs pick dir files)
        = Some (Inr (map (\<lambda>file. Some (stat_value P fs dir file)) files))) \<and>
   ((\<exists>file \<in> set files. stat_fails P fs dir file) \<longrightarrow>
      (\<exists>file \<in> set files. \<exists>code.
         fs_stat fs (path_join P [dir, file]) = Inl code \<and> code \<noteq> js ''ENOENT'' \<and>
         fst (stat P fs pick dir files) = Some (Inl (SystemError code None)))) \<and>
   (fs_stat fs (path_join P [dir, name]) = Inl (js ''ENOENT'') \<longrightarrow>
      \<not> stat_fails P fs dir name \<and> stat_value P fs dir name = None) \<and>
   ((\<exists>file \<in> set (unshift_parent showUp names).
       stat_fails (env_path E) (env_fs E) path file) \<longrightarrow>
      (\<exists>file \<in> set (unshift_parent showUp names). \<exists>code.
         fs_stat (env_fs E) (path_join (env_path E) [path, file]) = Inl code \<and>
         code \<noteq> js ''ENOENT'' \<and>
         fst (serveIndex_html E cfg names originalDir showUp path)
           = Next (Some (SystemError code None))))"
proof -
  have "(\<forall>file \<in> set files. \<not> stat_fails P fs dir file) \<longrightarrow>
      fst (stat P fs pick dir files)
        = Some (Inr (map (\<lambda>file. Some (stat_value P fs dir file)) files))"
    using stat_all_done [of files P fs dir pick] by blast
  moreover have "(\<exists>file \<in> set files. stat_fails P fs dir file) \<longrightarrow>
      (\<exists>file \<in> set files. \<exists>code.
         fs_stat fs (path_join P [dir, file]) = Inl code \<and> code \<noteq> js ''ENOENT'' \<and>
         fst (stat P fs pick dir files) = Some (Inl (SystemError code None)))"
    using stat_some_error [of files P fs dir pick] by blast
  moreover have "fs_stat fs (path_join P [dir, name]) = Inl (js ''ENOENT'') \<longrightarrow>
      \<not> stat_fails P fs dir name \<and> stat_value P fs dir name = None"
    by (simp add: stat_fails_def stat_value_def)
  moreover have "(\<exists>file \<in> set (unshift_parent showUp names).
       stat_fails (env_path E) (env_fs E) path file) \<longrightarrow>
      (\<exists>file \<in> set (unshift_parent showUp names). \<exists>code.
         fs_stat (env_fs E) (path_join (env_path E) [path, file]) = Inl code \<and>
         code \<noteq> js ''ENOENT'' \<and>
         fst (serveIndex_html E cfg names originalDir showUp path)
           = Next (Some (SystemError code None)))"
    using serveIndex_html_stat_error [of showUp names E path cfg originalDir] by blast
  ultimately show ?thesis by blast
qed


theorem stat_positional_witness:
  "list_all (\<lambda>file. \<not> stat_fails ex_path ex_fs (js ''/srv/www/docs'') file)
     [js ''a.txt'', js ''gone'', js ''b.txt''] \<and>
   fst (stat ex_path ex_fs ex_pick (js ''/srv/www/docs'') [js ''a.txt'', js ''gone'', js ''b.txt''])
     = Some (Inr [Some (Some (Stats False 12 0)), Some None, Some (Some (Stats False 7 0))]) \<and>
   (\<exists>file \<in> set [js ''key'']. stat_fails ex_path ex_fs (js ''/srv/www/vault'') file) \<and>
   fst (stat ex_path ex_fs ex_pick (js ''/srv/www/vault'') [js ''key''])
     = Some (Inl (SystemError (js ''EACCES'') None)) \<and>
   fs_stat ex_fs (path_join ex_path [js ''/srv/www/docs'', js ''gone'']) = Inl (js ''ENOENT'') \<and>
   stat_value ex_path ex_fs (js ''/srv/www/docs'') (js ''gone'') = None \<and>
   (\<exists>file \<in> set (unshift_parent True [js ''key'']).
      stat_fails (env_path ex_env) (env_fs ex_env) (js ''/srv/www/vault'') file) \<and>
   fst (serveIndex_html ex_env ex_config [js ''key''] (js ''/vault'') True (js ''/srv/www/vault''))
     = Next (Some (SystemError (js ''EACCES'') None))"
proof -
  have bad: "\<exists>file \<in> set [js ''key'']. stat_fails ex_path ex_fs (js ''/srv/www/vault'') file"
    using ex_vault_key ex_codes by (simp add: stat_fails_def)
  have bad': "\<exists>file \<in> set (unshift_parent True [js ''key'']).
      stat_fails (env_path ex_env) (env_fs ex_env) (js ''/srv/www/vault'') file"
    using bad by (simp add: ex_unshift ex_env_def)
  have up: "fs_stat (env_fs ex_env) (path_join (env_path ex_env) [js ''/srv/www/vault'', js ''..''])
      = Inr (Stats True 4096 0)"
    by (simp add: ex_defs path_defs)
  have key: "fs_stat (env_fs ex_env) (path_join (env_path ex_env) [js ''/srv/www/vault'', js ''key''])
      = Inl (js ''EACCES'')"
    using ex_vault_key by (simp add: ex_env_def)
  note t1 = stat_positional [of "[js ''a.txt'', js ''gone'', js ''b.txt'']" ex_path ex_fs
      "js ''/srv/www/docs''" ex_pick "js ''gone''" True "[js ''key'']" ex_env
      "js ''/srv/www/vault''" ex_config "js ''/vault''"]
  from t1 ex_docs_ok ex_docs_stats ex_docs_gone
  have one: "fst (stat ex_path ex_fs ex_pick (js ''/srv/www/docs'')
                [js ''a.txt'', js ''gone'', js ''b.txt''])
     = Some (Inr [Some (Some (Stats False 12 0)), Some None, Some (Some (Stats False 7 0))])"
    and gone: "stat_value ex_path ex_fs (js ''/srv/www/docs'') (js ''gone'') = None"
    by simp_all
  from t1 bad' have "\<exists>file \<in> set (unshift_parent True [js ''key'']). \<exists>code.
         fs_stat (env_fs ex_env) (path_join (env_path ex_env) [js ''/srv/www/vault'', file])
           = Inl code \<and>
         code \<noteq> js ''ENOENT'' \<and>
         fst (serveIndex_html ex_env ex_config [js ''key''] (js ''/vault'') True
                (js ''/srv/www/vault''))
           = Next (Some (SystemError code None))"
    by blast
  with up key have three:
    "fst (serveIndex_html ex_env ex_config [js ''key''] (js ''/vault'') True (js ''/srv/www/vault''))
     = Next (Some (SystemError (js ''EACCES'') None))"
    by (auto simp: ex_unshift)
  from stat_positional [of "[js ''key'']" ex_path ex_fs "js ''/srv/www/vault''" ex_pick "js ''gone''"]
    bad ex_vault_key
  have two: "fst (stat ex_path ex_fs ex_pick (js ''/srv/www/vault'') [js ''key''])
     = Some (Inl (SystemError (js ''EACCES'') None))"
    by auto
  have ok: "list_all (\<lambda>file. \<not> stat_fails ex_path ex_fs (js ''/srv/www/docs'') file)
     [js ''a.txt'', js ''gone'', js ''b.txt'']"
    using ex_docs_ok by (simp add: list_all_iff)
  from one two three gone bad bad' ok ex_docs_gone show ?thesis by blast
qed

section \<open>The listing\<close>

text \<open>
  C5. For a request that reaches the listing of a directory, the names in the response
  are the names returned by \<open>readdir\<close> in ascending order (the order of strings by code
  units, lexicographic): the JSON body and the plain body are made from this sorted
  list, and the file list handed to the render function of the page carries this
  sorted list, with \<open>..\<close> put in front of it when \<open>showUp\<close> is set.
\<close>

theorem listing_sorted:
  assumes "reaches_listing E cfg req originalDir path showUp files0"
  shows "sorted (sort files0) \<and> set (sort files0) = set files0 \<and>
         (env_accepts_type E req mediaTypes = Some (js ''application/json'') \<longrightarrow>
            fst (handler E cfg req)
              = Sent (js ''application/json'') (JSON_stringify (sort files0))) \<and>
         (env_accepts_type E req mediaTypes = Some (js ''text/plain'') \<longrightarrow>
            fst (handler E cfg req)
              = Sent (js ''text/plain'') (join_with [0x0A] (sort files0) @ [0x0A])) \<and>
         (env_accepts_type E req mediaTypes = Some (js ''text/html'') \<and>
          html_ready E cfg path (unshift_parent showUp (sort files0)) style \<longrightarrow>
            fst (handler E cfg req)
              = render_callback (fst (render_of E cfg
                  (html_locals cfg originalDir
                     (fileList_of (unshift_parent showUp (sort files0))
                        (stat_values (env_path E) (env_fs E) path
                           (unshift_parent showUp (sort files0))))
                     path style))) \<and>
            map fe_name
              (fileList_of (unshift_parent showUp (sort files0))
                 (stat_values (env_path E) (env_fs E) path (unshift_parent showUp (sort files0))))
              = (if showUp then js ''..'' # sort files0 else sort files0))"
  using handler_json [OF assms] handler_plain [OF assms] handler_html [OF assms, of style]
  by (simp add: fileList_of_names unshift_parent_def)

theorem listing_sorted_witness:
  "reaches_listing ex_env ex_config (ex_request ''GET'' ''/docs'' ''text/html'')
     (js ''/docs'') (js ''/srv/www/docs'') True [js ''b.txt'', js ''gone'', js ''a.txt''] \<and>
   env_accepts_type ex_env (ex_request ''GET'' ''/docs'' ''text/html'') mediaTypes
     = Some (js ''text/html'') \<and>
   html_ready ex_env ex_config (js ''/srv/www/docs'')
     (unshift_parent True (sort [js ''b.txt'', js ''gone'', js ''a.txt''])) (js ''{files}'') \<and>
   sorted [js ''a.txt'', js ''b.txt'', js ''gone''] \<and>
   fst (handler ex_env ex_config (ex_request ''GET'' ''/docs'' ''text/html''))
     = Sent (js ''text/html'')
         (join_with [0x0A] [js ''..'', js ''a.txt'', js ''b.txt'', js ''gone'']) \<and>
   fst (handler ex_env ex_config (ex_request ''GET'' ''/docs'' ''text/plain''))
     = Sent (js ''text/plain'')
         (join_with [0x0A] [js ''a.txt'', js ''b.txt'', js ''gone''] @ [0x0A]) \<and>
   fst (handler ex_env ex_config (ex_request ''GET'' ''/docs'' ''application/json''))
     = Sent (js ''application/json'') (JSON_stringify [js ''a.txt'', js ''b.txt'', js ''gone''])"
proof -
  note h = listing_sorted [OF ex_docs_listing, of "''text/html''" "js ''{files}''",
      unfolded ex_docs_sorted ex_unshift ex_render_names]
  note p = listing_sorted [OF ex_docs_listing, of "''text/plain''" "js ''{files}''",
      unfolded ex_docs_sorted ex_unshift ex_render_names]
  note j = listing_sorted [OF ex_docs_listing, of "''application/json''" "js ''{files}''",
      unfolded ex_docs_sorted ex_unshift ex_render_names]
  from h p j ex_docs_listing ex_accepts ex_docs_ready ex_docs_ready' show ?thesis by blast
qed

text \<open>
  C3, as amended. Two requests for the same directory on the same file system, one
  answered as JSON and one as a page: the JSON body holds the sorted names; the file
  list of the page carries the same names in the same order when \<open>showUp\<close> is not
  set, and these names behind a leading \<open>..\<close> when it is set. Only \<open>serveIndex.html\<close>
  prepends \<open>..\<close>, so the two lists agree exactly when \<open>showUp\<close> is not set.
\<close>

theorem json_html_name_lists:
  assumes "reaches_listing E cfg reqJ dirJ path showUp files0"
    and "reaches_listing E cfg reqH dirH path showUp' files0'"
    and "env_accepts_type E reqJ mediaTypes = Some (js ''application/json'')"
    and "env_accepts_type E reqH mediaTypes = Some (js ''text/html'')"
    and "html_ready E cfg path (unshift_parent showUp (sort files0)) style"
  shows "showUp' = showUp \<and> files0' = files0 \<and>
         fst (handler E cfg reqJ)
           = Sent (js ''application/json'') (JSON_stringify (sort files0)) \<and>
         fst (handler E cfg reqH)
           = render_callback (fst (render_of E cfg
               (html_locals cfg dirH
                  (fileList_of (unshift_parent showUp (sort files0))
                     (stat_values (env_path E) (env_fs E) path
                        (unshift_parent showUp (sort files0))))
                  path style))) \<and>
         map fe_name
           (fileList_of (unshift_parent showUp (sort files0))
              (stat_values (env_path E) (env_fs E) path (unshift_parent showUp (sort files0))))
           = (if showUp then js ''..'' # sort files0 else sort files0) \<and>
         (((if showUp then js ''..'' # sort files0 else sort files0) = sort files0)
            \<longleftrightarrow> \<not> showUp)"
proof -
  from assms(1,2) have same: "showUp' = showUp" "files0' = files0"
    by (auto simp: reaches_listing_def resolve_request_Inr)
  with assms(2) have rl: "reaches_listing E cfg reqH dirH path showUp files0" by simp
  from same handler_json [OF assms(1,3)] handler_html [OF rl assms(4,5)]
  show ?thesis by (simp add: fileList_of_names unshift_parent_def)
qed

theorem json_html_name_lists_witness:
  "reaches_listing ex_env ex_config (ex_request ''GET'' ''/docs'' ''application/json'')
     (js ''/docs'') (js ''/srv/www/docs'') True [js ''b.txt'', js ''gone'', js ''a.txt''] \<and>
   reaches_listing ex_env ex_config (ex_request ''GET'' ''/docs'' ''text/html'')
     (js ''/docs'') (js ''/srv/www/docs'') True [js ''b.txt'', js ''gone'', js ''a.txt''] \<and>
   env_accepts_type ex_env (ex_request ''GET'' ''/docs'' ''application/json'') mediaTypes
     = Some (js ''application/json'') \<and>
   env_accepts_type ex_env (ex_request ''GET'' ''/docs'' ''text/html'') mediaTypes
     = Some (js ''text/html'') \<and>
   html_ready ex_env ex_config (js ''/srv/www/docs'')
     (unshift_parent True (sort [js ''b.txt'', js ''gone'', js ''a.txt''])) (js ''{files}'') \<and>
   fst (handler ex_env ex_config (ex_request ''GET'' ''/docs'' ''application/json''))
     = Sent (js ''application/json'') (JSON_stringify [js ''a.txt'', js ''b.txt'', js ''gone'']) \<and>
   fst (handler ex_env ex_config (ex_request ''GET'' ''/docs'' ''text/html''))
     = Sent (js ''text/html'')
         (join_with [0x0A] [js ''..'', js ''a.txt'', js ''b.txt'', js ''gone''])"
proof -
  note t = json_html_name_lists [OF ex_docs_listing ex_docs_listing ex_accepts(1) ex_accepts(3)
      ex_docs_ready', unfolded ex_docs_sorted ex_unshift ex_render_names]
  from t ex_docs_listing ex_accepts ex_docs_ready' show ?thesis by blast
qed

text \<open>
  C3 as stated fails below the root: for \<open>/docs\<close> the JSON body lists three names,
  while the file list of the page has four, \<open>..\<close> first.
\<close>

theorem json_html_lists_counterexample:
  "fst (handler ex_env ex_config (ex_request ''GET'' ''/docs'' ''application/json''))
     = Sent (js ''application/json'') (JSON_stringify [js ''a.txt'', js ''b.txt'', js ''gone'']) \<and>
   fst (handler ex_env ex_config (ex_request ''GET'' ''/docs'' ''text/html''))
     = render_callback (fst (render_of ex_env ex_config
         (html_locals ex_config (js ''/docs'')
            (fileList_of [js ''..'', js ''a.txt'', js ''b.txt'', js ''gone'']
               [Some (Some (Stats True 4096 0)), Some (Some (Stats False 12 0)),
                Some (Some (Stats False 7 0)), Some None])
            (js ''/srv/www/docs'') (js ''{files}'')))) \<and>
   map fe_name
     (fileList_of [js ''..'', js ''a.txt'', js ''b.txt'', js ''gone'']
        [Some (Some (Stats True 4096 0)), Some (Some (Stats False 12 0)),
         Some (Some (Stats False 7 0)), Some None])
     = [js ''..'', js ''a.txt'', js ''b.txt'', js ''gone''] \<and>
   [js ''..'', js ''a.txt'', js ''b.txt'', js ''gone'']
     \<noteq> [js ''a.txt'', js ''b.txt'', js ''gone'']"
proof -
  note j = handler_json [OF ex_docs_listing ex_accepts(1), unfolded ex_docs_sorted]
  note h = handler_html [OF ex_docs_listing ex_accepts(3) ex_docs_ready',
      unfolded ex_docs_sorted ex_unshift ex_docs_values]
  from j have "fst (handler ex_env ex_config (ex_request ''GET'' ''/docs'' ''application/json''))
     = Sent (js ''application/json'') (JSON_stringify [js ''a.txt'', js ''b.txt'', js ''gone''])"
    by simp
  moreover note h
  moreover have "map fe_name
     (fileList_of [js ''..'', js ''a.txt'', js ''b.txt'', js ''gone'']
        [Some (Some (Stats True 4096 0)), Some (Some (Stats False 12 0)),
         Some (Some (Stats False 7 0)), Some None])
     = [js ''..'', js ''a.txt'', js ''b.txt'', js ''gone'']"
    by (rule fileList_of_names)
  moreover have "[js ''..'', js ''a.txt'', js ''b.txt'', js ''gone'']
     \<noteq> [js ''a.txt'', js ''b.txt'', js ''gone'']"
    by simp
  ultimately show ?thesis by blast
qed

section \<open>Content negotiation\<close>

text \<open>
  C9. For a request that reaches the listing of a directory: if the negotiated type is
  \<open>application/json\<close>, the body is the JSON array of the sorted names; if it is
  \<open>text/plain\<close>, the body is the sorted names joined with newlines, followed by a
  newline; if none of the three types is acceptable, the handler calls \<open>next\<close> with a
  406 error. Negotiation itself is the work of \<open>accepts\<close> and is taken as given.
\<close>

theorem negotiated_bodies:
  assumes "reaches_listing E cfg req originalDir path showUp files0"
  shows "(env_accepts_type E req mediaTypes = Some (js ''application/json'') \<longrightarrow>
            handler E cfg req =
              (Sent (js ''application/json'') (JSON_stringify (sort files0)),
               [OpStat path, OpReaddir path])) \<and>
         (env_accepts_type E req mediaTypes = Some (js ''text/plain'') \<longrightarrow>
            handler E cfg req =
              (Sent (js ''text/plain'') (join_with [0x0A] (sort files0) @ [0x0A]),
               [OpStat path, OpReaddir path])) \<and>
         (env_accepts_type E req mediaTypes = None \<longrightarrow>
            handler E cfg req = (Next (Some (HttpError 406)), [OpStat path, OpReaddir path]))"
  using handler_json [OF assms] handler_plain [OF assms] handler_not_acceptable [OF assms]
  by simp

theorem negotiated_bodies_witness:
  "reaches_listing ex_env ex_config (ex_request ''GET'' ''/docs'' ''application/json'')
     (js ''/docs'') (js ''/srv/www/docs'') True [js ''b.txt'', js ''gone'', js ''a.txt''] \<and>
   env_accepts_type ex_env (ex_request ''GET'' ''/docs'' ''application/json'') mediaTypes
     = Some (js ''application/json'') \<and>
   env_accepts_type ex_env (ex_request ''GET'' ''/docs'' ''text/plain'') mediaTypes
     = Some (js ''text/plain'') \<and>
   env_accepts_type ex_env (ex_request ''GET'' ''/docs'' ''text/xml'') mediaTypes = None \<and>
   handler ex_env ex_config (ex_request ''GET'' ''/docs'' ''application/json'')
     = (Sent (js ''application/json'') (JSON_stringify [js ''a.txt'', js ''b.txt'', js ''gone'']),
        [OpStat (js ''/srv/www/docs''), OpReaddir (js ''/srv/www/docs'')]) \<and>
   handler ex_env ex_config (ex_request ''GET'' ''/docs'' ''text/plain'')
     = (Sent (js ''text/plain'')
          (join_with [0x0A] [js ''a.txt'', js ''b.txt'', js ''gone''] @ [0x0A]),
        [OpStat (js ''/srv/www/docs''), OpReaddir (js ''/srv/www/docs'')]) \<and>
   handler ex_env ex_config (ex_request ''GET'' ''/docs'' ''text/xml'')
     = (Next (Some (HttpError 406)),
        [OpStat (js ''/srv/www/docs''), OpReaddir (js ''/srv/www/docs'')])"
proof -
  note j = negotiated_bodies [OF ex_docs_listing, of "''application/json''",
      unfolded ex_docs_sorted]
  note p = negotiated_bodies [OF ex_docs_listing, of "''text/plain''", unfolded ex_docs_sorted]
  note x = negotiated_bodies [OF ex_docs_listing, of "''text/xml''", unfolded ex_docs_sorted]
  from j p x ex_docs_listing [of "''application/json''"]
    ex_accepts [of "''GET''" "''/docs''"]
  show ?thesis by simp
qed

end
